theory Spec2Isabelle
  imports Complex_Main "HOL-Library.Sublist" "HOL-Library.Word"
begin

section \<open>JavaScript values used by the movie controller\<close>

subsection \<open>Numbers\<close>

text \<open>
  A JavaScript number is \<open>NaN\<close>, an infinity or a finite value. Finite doubles are
  rationals, and the controller only compares them, takes minima and maxima, adds
  millisecond counts and truncates, so finite values are kept as exact rationals
  (rounding to the nearest double is not modelled; \<open>-0\<close> and \<open>+0\<close> are both \<open>Fin 0\<close>).
\<close>

datatype jsnum = NaN | NegInf | Fin rat | PosInf

definition num :: "int \<Rightarrow> jsnum" where
  "num i = Fin (of_int i)"

text \<open>\<open>a < b\<close>, \<open>a \<le> b\<close> of JavaScript: every comparison with \<open>NaN\<close> is false.\<close>

fun js_less :: "jsnum \<Rightarrow> jsnum \<Rightarrow> bool" where
  "js_less NaN _ = False"
| "js_less _ NaN = False"
| "js_less NegInf b = (b \<noteq> NegInf)"
| "js_less (Fin a) NegInf = False"
| "js_less (Fin a) (Fin b) = (a < b)"
| "js_less (Fin a) PosInf = True"
| "js_less PosInf _ = False"

fun js_le :: "jsnum \<Rightarrow> jsnum \<Rightarrow> bool" where
  "js_le NaN _ = False"
| "js_le _ NaN = False"
| "js_le a b = (a = b \<or> js_less a b)"

text \<open>\<open>a > b\<close> and \<open>a >= b\<close> are the mirrored comparisons.\<close>

definition js_greater :: "jsnum \<Rightarrow> jsnum \<Rightarrow> bool" where
  "js_greater a b = js_less b a"

definition js_ge :: "jsnum \<Rightarrow> jsnum \<Rightarrow> bool" where
  "js_ge a b = js_le b a"

text \<open>\<open>Math.max(a, b)\<close> and \<open>Math.min(a, b)\<close>: \<open>NaN\<close> when an argument is \<open>NaN\<close>.\<close>

fun Math_max :: "jsnum \<Rightarrow> jsnum \<Rightarrow> jsnum" where
  "Math_max NaN _ = NaN"
| "Math_max _ NaN = NaN"
| "Math_max a b = (if js_less a b then b else a)"

fun Math_min :: "jsnum \<Rightarrow> jsnum \<Rightarrow> jsnum" where
  "Math_min NaN _ = NaN"
| "Math_min _ NaN = NaN"
| "Math_min a b = (if js_less b a then b else a)"

text \<open>\<open>a + b\<close> on numbers; opposite infinities give \<open>NaN\<close>.\<close>

fun js_add :: "jsnum \<Rightarrow> jsnum \<Rightarrow> jsnum" where
  "js_add NaN _ = NaN"
| "js_add _ NaN = NaN"
| "js_add (Fin a) (Fin b) = Fin (a + b)"
| "js_add (Fin a) b = b"
| "js_add a (Fin b) = a"
| "js_add a b = (if a = b then a else NaN)"

text \<open>Truthiness of a number, and \<open>n || d\<close> with a number on the left.\<close>

fun truthy :: "jsnum \<Rightarrow> bool" where
  "truthy NaN = False"
| "truthy (Fin q) = (q \<noteq> 0)"
| "truthy _ = True"

definition js_or :: "jsnum \<Rightarrow> jsnum \<Rightarrow> jsnum" where
  "js_or n d = (if truthy n then n else d)"

text \<open>Truncation towards zero, as \<open>ToIntegerOrInfinity\<close> does on a finite value.\<close>

definition trunc :: "rat \<Rightarrow> int" where
  "trunc q = (if 0 \<le> q then \<lfloor>q\<rfloor> else \<lceil>q\<rceil>)"

text \<open>
  \<open>xs.slice(0, n)\<close>: the end index is \<open>ToIntegerOrInfinity(n)\<close> (\<open>NaN\<close> is 0); a
  negative end counts from the end of the array; the result is empty when the end is
  not beyond the start.
\<close>

fun slice0 :: "jsnum \<Rightarrow> 'a list \<Rightarrow> 'a list" where
  "slice0 NaN xs = []"
| "slice0 NegInf xs = []"
| "slice0 PosInf xs = xs"
| "slice0 (Fin q) xs =
     (let k = trunc q
      in if k < 0 then take (nat (int (length xs) + k)) xs else take (nat k) xs)"

subsection \<open>Strings\<close>

text \<open>
  Strings are byte strings. \<open>toLowerCase\<close> and the white space class are modelled on
  ASCII: the letters \<open>A\<close> to \<open>Z\<close>, and tab, line feed, vertical tab, form feed,
  carriage return and space.
\<close>

definition isWhiteSpace :: "char \<Rightarrow> bool" where
  "isWhiteSpace c = (c \<in> set [CHR 0x09, CHR 0x0A, CHR 0x0B, CHR 0x0C, CHR 0x0D, CHR '' ''])"

definition trim :: "string \<Rightarrow> string" where
  "trim s = rev (dropWhile isWhiteSpace (rev (dropWhile isWhiteSpace s)))"

definition lowerChar :: "char \<Rightarrow> char" where
  "lowerChar c =
     (case map_of (zip ''ABCDEFGHIJKLMNOPQRSTUVWXYZ'' ''abcdefghijklmnopqrstuvwxyz'') c of
        Some l \<Rightarrow> l
      | None \<Rightarrow> c)"

definition toLowerCase :: "string \<Rightarrow> string" where
  "toLowerCase s = map lowerChar s"

text \<open>\<open>hay.includes(needle)\<close>: the needle occurs as a contiguous run.\<close>

fun String_includes :: "string \<Rightarrow> string \<Rightarrow> bool" where
  "String_includes [] needle = (needle = [])"
| "String_includes (c # cs) needle = (prefix needle (c # cs) \<or> String_includes cs needle)"

text \<open>\<open>s.replace(/\s+/g, '-')\<close>: every maximal run of white space becomes one hyphen.\<close>

fun hyphenateRuns :: "bool \<Rightarrow> string \<Rightarrow> string" where
  "hyphenateRuns inRun [] = []"
| "hyphenateRuns inRun (c # cs) =
     (if isWhiteSpace c then (if inRun then hyphenateRuns True cs
                              else CHR ''-'' # hyphenateRuns True cs)
      else c # hyphenateRuns False cs)"

definition hyphenate :: "string \<Rightarrow> string" where
  "hyphenate s = hyphenateRuns False s"

text \<open>Decimal rendering of a non-negative integer, as a template literal prints it.\<close>

definition digitChar :: "nat \<Rightarrow> char" where
  "digitChar d = ''0123456789'' ! (d mod 10)"

fun String_nat :: "nat \<Rightarrow> string" where
  "String_nat n = (if n < 10 then [digitChar n] else String_nat (n div 10) @ [digitChar (n mod 10)])"

declare String_nat.simps [simp del]

subsection \<open>\<open>Number(string)\<close>\<close>

text \<open>
  \<open>StringToNumber\<close> of ECMAScript: white space is trimmed; the empty string is 0; a
  literal is a binary, octal or hexadecimal integer (\<open>0b\<close>, \<open>0o\<close>, \<open>0x\<close>, no sign), or
  an optionally signed \<open>Infinity\<close> or decimal literal with optional fraction and
  exponent; anything else is \<open>NaN\<close>.
\<close>

definition isDigit :: "char \<Rightarrow> bool" where
  "isDigit c = (let n = (of_char c :: nat) in 48 \<le> n \<and> n \<le> 57)"

definition digitVal :: "char \<Rightarrow> nat" where
  "digitVal c =
     (let n = (of_char c :: nat)
      in if 48 \<le> n \<and> n \<le> 57 then n - 48
         else if 97 \<le> n \<and> n \<le> 102 then n - 87
         else if 65 \<le> n \<and> n \<le> 70 then n - 55
         else 0)"

definition isDigitOf :: "nat \<Rightarrow> char \<Rightarrow> bool" where
  "isDigitOf radix c =
     (let n = (of_char c :: nat)
      in ((48 \<le> n \<and> n \<le> 57) \<or> (97 \<le> n \<and> n \<le> 102) \<or> (65 \<le> n \<and> n \<le> 70))
         \<and> digitVal c < radix)"

definition digitsVal :: "nat \<Rightarrow> string \<Rightarrow> nat" where
  "digitsVal radix ds = foldl (\<lambda>a c. radix * a + digitVal c) 0 ds"

definition parseRadix :: "nat \<Rightarrow> string \<Rightarrow> rat option" where
  "parseRadix radix ds =
     (if ds \<noteq> [] \<and> list_all (isDigitOf radix) ds then Some (of_nat (digitsVal radix ds))
      else None)"

fun parseNonDecimal :: "string \<Rightarrow> rat option" where
  "parseNonDecimal (z # p # ds) =
     (if z \<noteq> CHR ''0'' then None
      else if p = CHR ''x'' \<or> p = CHR ''X'' then parseRadix 16 ds
      else if p = CHR ''o'' \<or> p = CHR ''O'' then parseRadix 8 ds
      else if p = CHR ''b'' \<or> p = CHR ''B'' then parseRadix 2 ds
      else None)"
| "parseNonDecimal _ = None"

text \<open>A sign in front of the rest: \<open>(negative, rest)\<close>.\<close>

fun splitSign :: "string \<Rightarrow> bool \<times> string" where
  "splitSign (c # cs) =
     (if c = CHR ''+'' then (False, cs) else if c = CHR ''-'' then (True, cs)
      else (False, c # cs))"
| "splitSign [] = (False, [])"

text \<open>\<open>ExponentPart\<close>: nothing, or \<open>e\<close>/\<open>E\<close>, an optional sign and at least one digit.\<close>

fun parseExponent :: "string \<Rightarrow> int option" where
  "parseExponent [] = Some 0"
| "parseExponent (c # cs) =
     (if c = CHR ''e'' \<or> c = CHR ''E'' then
        (let (neg, ds) = splitSign cs
         in if ds \<noteq> [] \<and> list_all isDigit ds
            then Some (if neg then - int (digitsVal 10 ds) else int (digitsVal 10 ds))
            else None)
      else None)"

definition pow10 :: "int \<Rightarrow> rat" where
  "pow10 e = (if 0 \<le> e then 10 ^ nat e else 1 / 10 ^ nat (- e))"

definition parseUnsignedDecimal :: "string \<Rightarrow> rat option" where
  "parseUnsignedDecimal s =
     (let ip = takeWhile isDigit s;
          r1 = dropWhile isDigit s;
          (fp, r2) = (case r1 of
                        [] \<Rightarrow> ([], [])
                      | c # t \<Rightarrow> if c = CHR ''.'' then (takeWhile isDigit t, dropWhile isDigit t)
                                 else ([], r1))
      in if ip = [] \<and> fp = [] then None
         else case parseExponent r2 of
                None \<Rightarrow> None
              | Some e \<Rightarrow>
                  Some ((of_nat (digitsVal 10 ip) + of_nat (digitsVal 10 fp) / 10 ^ length fp)
                        * pow10 e))"

definition StringToNumber :: "string \<Rightarrow> jsnum" where
  "StringToNumber s =
     (let t = trim s
      in if t = [] then Fin 0
         else case parseNonDecimal t of
                Some q \<Rightarrow> Fin q
              | None \<Rightarrow>
                  (let (neg, u) = splitSign t
                   in if u = ''Infinity'' then (if neg then NegInf else PosInf)
                      else case parseUnsignedDecimal u of
                             None \<Rightarrow> NaN
                           | Some q \<Rightarrow> Fin (if neg then - q else q)))"

text \<open>\<open>Number(v)\<close> of a query value that may be absent: \<open>Number(undefined)\<close> is \<open>NaN\<close>.\<close>

fun Number_of :: "string option \<Rightarrow> jsnum" where
  "Number_of None = NaN"
| "Number_of (Some s) = StringToNumber s"

section \<open>Data model\<close>

subsection \<open>Catalog records\<close>

text \<open>
  The fields of a \<open>Movie\<close> (models/Movie.js), shared by a seed record and a stored
  document. A stored document adds its \<open>_id\<close> (an ObjectId: 12 bytes, printed by
  \<open>toString()\<close> as 24 lower-case hexadecimal digits) and the two timestamps.
\<close>

record movie =
  title :: string
  description :: string
  category :: string
  type :: string
  year :: jsnum
  rating :: string
  duration :: string
  imageUrl :: string
  backdropUrl :: string
  trailerUrl :: string
  featured :: bool

record movieDoc = movie +
  doc_id :: "96 word"
  createdAt :: int
  updatedAt :: int

definition hexChar :: "nat \<Rightarrow> char" where
  "hexChar d = ''0123456789abcdef'' ! (d mod 16)"

definition ObjectId_toString :: "96 word \<Rightarrow> string" where
  "ObjectId_toString w = map (\<lambda>i. hexChar (unat (drop_bit (4 * i) w))) (rev [0..<24])"

text \<open>The record every normalization function returns (the ContentRecord of the API).\<close>

record content =
  cr_id :: string
  cr_title :: string
  cr_description :: string
  cr_category :: string
  cr_type :: string
  cr_year :: jsnum
  cr_rating :: string
  cr_duration :: string
  cr_image :: string
  cr_backdrop :: string
  cr_trailerUrl :: string
  cr_featured :: bool
  cr_createdAt :: "int option"
  cr_updatedAt :: "int option"

subsection \<open>Upstream payloads\<close>

text \<open>
  What the upstream service sends back, by the field the controller reads: \<open>genres\<close>
  of a genre list, \<open>results\<close> of a listing or of a video list. An absent or empty
  string field is the empty string (both are falsy), an absent or zero genre id is 0.
\<close>

record genre =
  genre_name :: string
  genre_id :: nat

record tmdbItem =
  item_id :: nat
  item_title :: string
  item_name :: string
  release_date :: string
  first_air_date :: string
  poster_path :: string
  backdrop_path :: string
  overview :: string
  adult :: bool

record video =
  video_site :: string
  video_type :: string
  video_key :: string

datatype payload = GenreList "genre list" | ItemList "tmdbItem list" | VideoList "video list"
  | NoFields

fun payload_genres :: "payload \<Rightarrow> genre list" where
  "payload_genres (GenreList gs) = gs"
| "payload_genres _ = []"

fun payload_items :: "payload \<Rightarrow> tmdbItem list" where
  "payload_items (ItemList xs) = xs"
| "payload_items _ = []"

fun payload_videos :: "payload \<Rightarrow> video list" where
  "payload_videos (VideoList vs) = vs"
| "payload_videos _ = []"

subsection \<open>Requests, replies and the world a handler reads\<close>

text \<open>The query string of \<open>GET /movies\<close>: each parameter is absent or a string.\<close>

record query =
  q_source :: "string option"
  q_search :: "string option"
  q_category :: "string option"
  q_type :: "string option"
  q_featured :: "string option"
  q_limit :: "string option"
  q_perCategory :: "string option"

text \<open>The filter object handed to \<open>Movie.find\<close>.\<close>

record storeFilter =
  f_text_search :: "string option"
  f_category :: "string option"
  f_type :: "string option"
  f_featured :: "bool option"

datatype error = MissingApiKey | UpstreamFailure | StoreFailure

datatype body = Listing nat "content list" | Message string | TrailerData string

text \<open>A handler answers with a status and a JSON body, or passes an error to \<open>next\<close>.\<close>

datatype reply = Reply nat body | NextError error

text \<open>
  The module state: \<open>tmdbDisabledUntil\<close> and \<open>tmdbFailureStreak\<close>, both 0 when the
  module is loaded.
\<close>

record health =
  tmdbDisabledUntil :: jsnum
  tmdbFailureStreak :: int

definition initialHealth :: health where
  "initialHealth = \<lparr>tmdbDisabledUntil = Fin 0, tmdbFailureStreak = 0\<rparr>"

text \<open>
  Everything a handler reads from outside during one request: the environment variables,
  the clock, the outcome of each upstream fetch (\<open>None\<close> when \<open>tmdbFetch\<close> has used up
  its attempts and throws; within one request a path with its parameters has one
  outcome), the connection state of the store, the result of the store query
  (\<open>None\<close> when it throws) and the seed catalog. The seed catalog is the list exported by
  \<open>data/seedMovies\<close>, whatever it holds. Console output is not part of the model.
\<close>

record world =
  TMDB_API_KEY :: "string option"
  TMDB_COOLDOWN_MS_env :: "string option"
  now :: int
  currentYear :: int
  http :: "string \<Rightarrow> (string \<times> string) list \<Rightarrow> payload option"
  readyState :: nat
  Movie_find :: "storeFilter \<Rightarrow> jsnum \<Rightarrow> movieDoc list option"
  seedMovies :: "movie list"

text \<open>Truthiness of a string that may be absent, and \<open>v || d\<close>, \<open>v = d\<close> default.\<close>

fun str_truthy :: "string option \<Rightarrow> bool" where
  "str_truthy None = False"
| "str_truthy (Some s) = (s \<noteq> [])"

fun str_or :: "string \<Rightarrow> string \<Rightarrow> string" where
  "str_or a b = (if a \<noteq> [] then a else b)"

fun default_to :: "string \<Rightarrow> string option \<Rightarrow> string" where
  "default_to d None = d"
| "default_to d (Some s) = s"

text \<open>\<open>TMDB_COOLDOWN_MS = Number(process.env.TMDB_COOLDOWN_MS || 5 * 60 * 1000)\<close>\<close>

definition TMDB_COOLDOWN_MS :: "world \<Rightarrow> jsnum" where
  "TMDB_COOLDOWN_MS w =
     (if str_truthy (TMDB_COOLDOWN_MS_env w) then Number_of (TMDB_COOLDOWN_MS_env w)
      else Fin (5 * 60 * 1000))"

section \<open>The upstream client\<close>

text \<open>
  \<open>tmdbFetch(path, params)\<close>: \<open>buildTmdbUrl\<close> throws when the API key is missing;
  otherwise the result is the outcome of the fetch with its retries.
\<close>

definition tmdbFetch :: "world \<Rightarrow> string \<Rightarrow> (string \<times> string) list \<Rightarrow> error + payload" where
  "tmdbFetch w path params =
     (if \<not> str_truthy (TMDB_API_KEY w) then Inl MissingApiKey
      else case http w path params of
             None \<Rightarrow> Inl UpstreamFailure
           | Some payload \<Rightarrow> Inr payload)"

text \<open>
  \<open>fetchTrailerUrl(id, type)\<close>: the first kind of \<open>Trailer\<close>, \<open>Teaser\<close>, \<open>Clip\<close> that
  has a YouTube video decides; the empty string when there is none. The id arrives
  already printed (a path parameter, or an item id inside a template literal).
\<close>

fun firstSome :: "'a option list \<Rightarrow> 'a option" where
  "firstSome [] = None"
| "firstSome (None # xs) = firstSome xs"
| "firstSome (Some x # xs) = Some x"

definition videosPath :: "string \<Rightarrow> string \<Rightarrow> string" where
  "videosPath ty ident =
     (if ty = ''series'' then ''/tv/'' @ ident @ ''/videos'' else ''/movie/'' @ ident @ ''/videos'')"

definition pickVideo :: "video list \<Rightarrow> video option" where
  "pickVideo results =
     firstSome (map (\<lambda>kind. find (\<lambda>item. video_site item = ''YouTube'' \<and> video_type item = kind)
                                results)
                    [''Trailer'', ''Teaser'', ''Clip''])"

definition fetchTrailerUrl :: "world \<Rightarrow> string \<Rightarrow> string \<Rightarrow> error + string" where
  "fetchTrailerUrl w ident ty =
     (case tmdbFetch w (videosPath ty ident) [] of
        Inl e \<Rightarrow> Inl e
      | Inr payload \<Rightarrow>
          Inr (case pickVideo (payload_videos payload) of
                 Some v \<Rightarrow> ''https://www.youtube.com/embed/'' @ video_key v
               | None \<Rightarrow> []))"

text \<open>
  \<open>fetchGenreMap(type)\<close>: a map from the lower-cased genre name to its id, of the
  genres that have a name and an id; a later entry of the same name replaces an earlier.
\<close>

definition fetchGenreMap :: "world \<Rightarrow> string \<Rightarrow> error + (string \<rightharpoonup> nat)" where
  "fetchGenreMap w ty =
     (let path = (if ty = ''series'' then ''/genre/tv/list'' else ''/genre/movie/list'')
      in case tmdbFetch w path [] of
           Inl e \<Rightarrow> Inl e
         | Inr payload \<Rightarrow>
             Inr (foldl (\<lambda>m g. if genre_name g \<noteq> [] \<and> genre_id g \<noteq> 0
                               then m(toLowerCase (genre_name g) \<mapsto> genre_id g) else m)
                        Map.empty (payload_genres payload)))"

section \<open>The normalization functions\<close>

definition TMDB_IMAGE_BASE :: string where
  "TMDB_IMAGE_BASE = ''https://image.tmdb.org/t/p''"

text \<open>
  \<open>mapTmdbItem(item, category, type, trailerMap, isFeatured)\<close>. The year is
  \<open>Number(date.slice(0, 4))\<close> when the date is not empty, and the year of the clock
  otherwise.
\<close>

definition mapTmdbItem ::
  "world \<Rightarrow> tmdbItem \<Rightarrow> string \<Rightarrow> string \<Rightarrow> (string \<rightharpoonup> string) \<Rightarrow> bool \<Rightarrow> content" where
  "mapTmdbItem w item cat ty trailerMap isFeatured =
     (let title' = str_or (item_title item) (str_or (item_name item) ''Untitled'');
          date = str_or (release_date item) (str_or (first_air_date item) []);
          year' = (if date \<noteq> [] then StringToNumber (take 4 date) else num (currentYear w));
          poster = (if poster_path item \<noteq> [] then TMDB_IMAGE_BASE @ ''/w500'' @ poster_path item
                    else if backdrop_path item \<noteq> []
                         then TMDB_IMAGE_BASE @ ''/w780'' @ backdrop_path item
                         else []);
          backdrop = (if backdrop_path item \<noteq> []
                      then TMDB_IMAGE_BASE @ ''/w1280'' @ backdrop_path item
                      else poster);
          key = ty @ '':'' @ String_nat (item_id item)
      in \<lparr>cr_id = ''tmdb-'' @ ty @ ''-'' @ String_nat (item_id item),
          cr_title = title',
          cr_description = str_or (overview item) ''No description available.'',
          cr_category = cat,
          cr_type = ty,
          cr_year = year',
          cr_rating = (if adult item then ''18+'' else ''13+''),
          cr_duration = (if ty = ''series'' then ''Series'' else ''Movie''),
          cr_image = poster,
          cr_backdrop = backdrop,
          cr_trailerUrl = (case trailerMap key of Some u \<Rightarrow> str_or u [] | None \<Rightarrow> []),
          cr_featured = isFeatured,
          cr_createdAt = None,
          cr_updatedAt = None\<rparr>)"

definition normalizeMovie :: "movieDoc \<Rightarrow> content" where
  "normalizeMovie movie =
     \<lparr>cr_id = ObjectId_toString (doc_id movie),
      cr_title = title movie,
      cr_description = description movie,
      cr_category = category movie,
      cr_type = type movie,
      cr_year = year movie,
      cr_rating = rating movie,
      cr_duration = duration movie,
      cr_image = imageUrl movie,
      cr_backdrop = backdropUrl movie,
      cr_trailerUrl = trailerUrl movie,
      cr_featured = featured movie,
      cr_createdAt = Some (createdAt movie),
      cr_updatedAt = Some (updatedAt movie)\<rparr>"

definition normalizeSeedMovie :: "movie \<Rightarrow> content" where
  "normalizeSeedMovie movie =
     \<lparr>cr_id = ''seed-'' @ hyphenate (toLowerCase (title movie)),
      cr_title = title movie,
      cr_description = description movie,
      cr_category = category movie,
      cr_type = type movie,
      cr_year = year movie,
      cr_rating = rating movie,
      cr_duration = duration movie,
      cr_image = imageUrl movie,
      cr_backdrop = backdropUrl movie,
      cr_trailerUrl = trailerUrl movie,
      cr_featured = featured movie,
      cr_createdAt = None,
      cr_updatedAt = None\<rparr>"

section \<open>The upstream listing: \<open>getMoviesFromTmdb\<close>\<close>

record categoryDef =
  cat_title :: string
  cat_path :: string
  cat_type :: string
  cat_params :: "(string \<times> string) list"

definition mkCategory :: "string \<Rightarrow> string \<Rightarrow> string \<Rightarrow> (string \<times> string) list \<Rightarrow> categoryDef" where
  "mkCategory t p ty ps = \<lparr>cat_title = t, cat_path = p, cat_type = ty, cat_params = ps\<rparr>"

definition categories :: "categoryDef list" where
  "categories =
     [mkCategory ''Trending Movies'' ''/trending/movie/week'' ''movie'' [],
      mkCategory ''Trending TV'' ''/trending/tv/week'' ''series'' [],
      mkCategory ''Now Playing'' ''/movie/now_playing'' ''movie'' [],
      mkCategory ''Popular Movies'' ''/movie/popular'' ''movie'' [],
      mkCategory ''Top Rated Movies'' ''/movie/top_rated'' ''movie'' [],
      mkCategory ''Upcoming Movies'' ''/movie/upcoming'' ''movie'' [],
      mkCategory ''Popular TV'' ''/tv/popular'' ''series'' [],
      mkCategory ''Top Rated TV'' ''/tv/top_rated'' ''series'' [],
      mkCategory ''On The Air'' ''/tv/on_the_air'' ''series'' []]"

definition movieGenres :: "string list" where
  "movieGenres =
     [''Action'', ''Adventure'', ''Animation'', ''Comedy'', ''Crime'', ''Documentary'',
      ''Drama'', ''Family'', ''Fantasy'', ''Horror'', ''Romance'', ''Science Fiction'',
      ''Thriller'']"

definition tvGenres :: "string list" where
  "tvGenres =
     [''Action & Adventure'', ''Animation'', ''Comedy'', ''Crime'', ''Documentary'',
      ''Drama'', ''Family'', ''Mystery'', ''Reality'', ''Sci-Fi & Fantasy'',
      ''War & Politics'']"

text \<open>
  One discovery category for each genre name the genre map knows (with a truthy id);
  the other names are skipped.
\<close>

definition genreCategory ::
  "(string \<rightharpoonup> nat) \<Rightarrow> string \<Rightarrow> string \<Rightarrow> string \<Rightarrow> string \<Rightarrow> categoryDef list" where
  "genreCategory genreMap ending path ty name =
     (case genreMap (toLowerCase name) of
        None \<Rightarrow> []
      | Some gid \<Rightarrow>
          if gid \<noteq> 0
          then [mkCategory (name @ ending) path ty
                  [(''with_genres'', String_nat gid), (''sort_by'', ''popularity.desc'')]]
          else [])"

definition genreCategories :: "(string \<rightharpoonup> nat) \<Rightarrow> (string \<rightharpoonup> nat) \<Rightarrow> categoryDef list" where
  "genreCategories genreMapMovie genreMapTv =
     concat (map (genreCategory genreMapMovie '' Movies'' ''/discover/movie'' ''movie'') movieGenres)
     @ concat (map (genreCategory genreMapTv '' TV'' ''/discover/tv'' ''series'') tvGenres)"

text \<open>\<open>Math.min(Math.max(Number(req.query.perCategory) || 16, 6), 40)\<close>\<close>

definition perCategory :: "query \<Rightarrow> jsnum" where
  "perCategory q =
     Math_min (Math_max (js_or (Number_of (q_perCategory q)) (Fin 16)) (Fin 6)) (Fin 40)"

text \<open>\<open>Promise.all\<close> over a list: every result, or the error of a failed one.\<close>

fun awaitAll :: "('a \<Rightarrow> error + 'b) \<Rightarrow> 'a list \<Rightarrow> error + 'b list" where
  "awaitAll f [] = Inr []"
| "awaitAll f (x # xs) =
     (case f x of
        Inl e \<Rightarrow> Inl e
      | Inr y \<Rightarrow> (case awaitAll f xs of Inl e \<Rightarrow> Inl e | Inr ys \<Rightarrow> Inr (y # ys)))"

text \<open>One category listing, cut to the first \<open>perCategory\<close> results.\<close>

definition fetchCategory ::
  "world \<Rightarrow> jsnum \<Rightarrow> categoryDef \<Rightarrow> error + (categoryDef \<times> tmdbItem list)" where
  "fetchCategory w n c =
     (case tmdbFetch w (cat_path c) (cat_params c) of
        Inl e \<Rightarrow> Inl e
      | Inr payload \<Rightarrow> Inr (c, slice0 n (payload_items payload)))"

text \<open>The first three items of the first two categories get a trailer lookup.\<close>

definition trailerTargets :: "(categoryDef \<times> tmdbItem list) list \<Rightarrow> (string \<times> string) list" where
  "trailerTargets categoryResults =
     concat (map (\<lambda>(c, rs). map (\<lambda>item. (String_nat (item_id item), cat_type c)) (take 3 rs))
                 (take 2 categoryResults))"

text \<open>
  \<open>Promise.allSettled\<close>: a lookup that fails, or finds no trailer, leaves no entry. In
  the \<open>Map\<close> built from the entries a later entry of the same key replaces an earlier.
\<close>

definition trailerEntry :: "world \<Rightarrow> string \<times> string \<Rightarrow> (string \<times> string) list" where
  "trailerEntry w target =
     (case target of (ident, ty) \<Rightarrow>
        (case fetchTrailerUrl w ident ty of
           Inl e \<Rightarrow> []
         | Inr url \<Rightarrow> if url \<noteq> [] then [(ty @ '':'' @ ident, url)] else []))"

definition trailerMapOf :: "world \<Rightarrow> (string \<times> string) list \<Rightarrow> (string \<rightharpoonup> string)" where
  "trailerMapOf w targets = map_of (rev (concat (map (trailerEntry w) targets)))"

text \<open>Every item of every category, in order; only the very first one is featured.\<close>

definition categoryData ::
  "world \<Rightarrow> (string \<rightharpoonup> string) \<Rightarrow> nat \<times> categoryDef \<times> tmdbItem list \<Rightarrow> content list" where
  "categoryData w trailerMap entry =
     (case entry of (categoryIndex, c, rs) \<Rightarrow>
        map (\<lambda>(index, item). mapTmdbItem w item (cat_title c) (cat_type c) trailerMap
                                (categoryIndex = 0 \<and> index = 0))
            (enumerate 0 rs))"

definition listingData ::
  "world \<Rightarrow> (string \<rightharpoonup> string) \<Rightarrow> (categoryDef \<times> tmdbItem list) list \<Rightarrow> content list" where
  "listingData w trailerMap categoryResults =
     concat (map (categoryData w trailerMap) (enumerate 0 categoryResults))"

text \<open>
  \<open>getMoviesFromTmdb\<close>: an error as soon as a genre map or a category listing fails;
  otherwise the health state is reset and the reply is 200 with the data.
\<close>

definition getMoviesFromTmdb :: "world \<Rightarrow> query \<Rightarrow> error + (health \<times> reply)" where
  "getMoviesFromTmdb w q =
     (case fetchGenreMap w ''movie'' of
        Inl e \<Rightarrow> Inl e
      | Inr genreMapMovie \<Rightarrow>
     (case fetchGenreMap w ''series'' of
        Inl e \<Rightarrow> Inl e
      | Inr genreMapTv \<Rightarrow>
     (case awaitAll (fetchCategory w (perCategory q))
                    (categories @ genreCategories genreMapMovie genreMapTv) of
        Inl e \<Rightarrow> Inl e
      | Inr categoryResults \<Rightarrow>
          (let trailerMap = trailerMapOf w (trailerTargets categoryResults);
               data = listingData w trailerMap categoryResults
           in Inr (\<lparr>tmdbDisabledUntil = Fin 0, tmdbFailureStreak = 0\<rparr>,
                   Reply 200 (Listing (length data) data))))))"

section \<open>The listing handler: \<open>getMovies\<close>\<close>

record outcome =
  out_health :: health
  out_reply :: reply
  out_tmdbInvoked :: bool

definition tmdbDisabled :: "world \<Rightarrow> health \<Rightarrow> bool" where
  "tmdbDisabled w h = js_greater (tmdbDisabledUntil h) (num (now w))"

text \<open>
  What the \<open>catch\<close> of the upstream attempt does to the state: the streak grows by
  one, and when it is at least 1 the upstream is disabled until \<open>now + TMDB_COOLDOWN_MS\<close>.
\<close>

definition recordFailure :: "world \<Rightarrow> health \<Rightarrow> health" where
  "recordFailure w h =
     (let streak = tmdbFailureStreak h + 1
      in if streak \<ge> 1
         then \<lparr>tmdbDisabledUntil = js_add (num (now w)) (TMDB_COOLDOWN_MS w),
               tmdbFailureStreak = streak\<rparr>
         else h\<lparr>tmdbFailureStreak := streak\<rparr>)"

text \<open>
  The condition of the first \<open>if\<close> of \<open>getMovies\<close>: a key is configured, the request
  does not say \<open>source=db\<close> and the upstream is not disabled.
\<close>

definition upstreamEligible :: "world \<Rightarrow> query \<Rightarrow> health \<Rightarrow> bool" where
  "upstreamEligible w q h =
     (str_truthy (TMDB_API_KEY w) \<and> q_source q \<noteq> Some ''db'' \<and> \<not> tmdbDisabled w h)"

text \<open>
  The first part of \<open>getMovies\<close>: the upstream is tried when the request is eligible.
  The result is the state, the reply when the upstream answered, and whether the
  upstream was invoked.
\<close>

definition tryUpstream :: "world \<Rightarrow> query \<Rightarrow> health \<Rightarrow> health \<times> reply option \<times> bool" where
  "tryUpstream w q h =
     (if upstreamEligible w q h
      then (case getMoviesFromTmdb w q of
              Inr (h', r) \<Rightarrow> (h', Some r, True)
            | Inl e \<Rightarrow> (recordFailure w h, None, True))
      else (h, None, False))"

text \<open>The filter for the store: trimmed values, and \<open>featured\<close> when it is a boolean.\<close>

definition buildFilter :: "query \<Rightarrow> storeFilter" where
  "buildFilter q =
     (let search = default_to [] (q_search q);
          cat = default_to [] (q_category q);
          ty = default_to [] (q_type q);
          feat = default_to [] (q_featured q)
      in \<lparr>f_text_search = (if trim search \<noteq> [] then Some (trim search) else None),
          f_category = (if trim cat \<noteq> [] then Some (trim cat) else None),
          f_type = (if trim ty \<noteq> [] then Some (trim ty) else None),
          f_featured = (if feat = ''true'' \<or> feat = ''false'' then Some (feat = ''true'')
                        else None)\<rparr>)"

text \<open>\<open>Math.min(Math.max(Number(limit) || 50, 1), 500)\<close>, with \<open>limit = '200'\<close> by default.\<close>

definition cappedLimit :: "query \<Rightarrow> jsnum" where
  "cappedLimit q =
     Math_min (Math_max (js_or (StringToNumber (default_to ''200'' (q_limit q))) (Fin 50))
                        (Fin 1))
              (Fin 500)"

text \<open>The seed catalog filtered as the four \<open>filter\<close> calls and the \<open>slice\<close> do.\<close>

definition filteredSeed :: "world \<Rightarrow> query \<Rightarrow> movie list" where
  "filteredSeed w q =
     (let search = default_to [] (q_search q);
          cat = default_to [] (q_category q);
          ty = default_to [] (q_type q);
          feat = default_to [] (q_featured q)
      in slice0 (cappedLimit q)
           (filter (\<lambda>movie. if feat = ''true'' then featured movie else True)
           (filter (\<lambda>movie. search = [] \<or>
                       String_includes (toLowerCase (title movie)) (toLowerCase search))
           (filter (\<lambda>movie. cat = [] \<or> category movie = cat)
           (filter (\<lambda>movie. ty = [] \<or> type movie = ty) (seedMovies w))))))"

text \<open>
  The second part of \<open>getMovies\<close>: the store when it is connected (the state is reset
  once the query has returned), the seed catalog otherwise.
\<close>

definition storeOrSeed :: "world \<Rightarrow> query \<Rightarrow> health \<Rightarrow> health \<times> reply" where
  "storeOrSeed w q h =
     (if readyState w = 1
      then (case Movie_find w (buildFilter q) (cappedLimit q) of
              None \<Rightarrow> (h, NextError StoreFailure)
            | Some movies \<Rightarrow>
                (\<lparr>tmdbDisabledUntil = Fin 0, tmdbFailureStreak = 0\<rparr>,
                 Reply 200 (Listing (length movies) (map normalizeMovie movies))))
      else (let seeds = filteredSeed w q
            in (h, Reply 200 (Listing (length seeds) (map normalizeSeedMovie seeds)))))"

definition getMovies :: "world \<Rightarrow> query \<Rightarrow> health \<Rightarrow> outcome" where
  "getMovies w q h =
     (case tryUpstream w q h of
        (h', Some r, invoked) \<Rightarrow>
          \<lparr>out_health = h', out_reply = r, out_tmdbInvoked = invoked\<rparr>
      | (h', None, invoked) \<Rightarrow>
          (case storeOrSeed w q h' of
             (h'', r) \<Rightarrow> \<lparr>out_health = h'', out_reply = r, out_tmdbInvoked = invoked\<rparr>))"

section \<open>The trailer endpoint: \<open>getTmdbTrailer\<close>\<close>

definition getTmdbTrailer :: "world \<Rightarrow> string \<Rightarrow> string \<Rightarrow> reply" where
  "getTmdbTrailer w ty ident =
     (let normalizedType = (if ty = ''series'' then ''series''
                            else if ty = ''movie'' then ''movie'' else [])
      in if normalizedType = [] \<or> ident = []
         then Reply 400 (Message ''Valid type and id are required.'')
         else if \<not> str_truthy (TMDB_API_KEY w)
         then Reply 503 (Message ''TMDB trailer service is unavailable.'')
         else case fetchTrailerUrl w ident normalizedType of
                Inl e \<Rightarrow> NextError e
              | Inr trailerUrl' \<Rightarrow>
                  if trailerUrl' = []
                  then Reply 404 (Message ''Trailer not available for this title.'')
                  else Reply 200 (TrailerData trailerUrl'))"

section \<open>Clamping, in the words of the specification\<close>

text \<open>
  \<open>clamp(n, lo, hi)\<close> as the specification uses it: \<open>n\<close> when it lies between the
  bounds, the bound it passes otherwise. The handlers compute their limits with
  \<open>Math.min\<close> and \<open>Math.max\<close> instead; the theorems below compare the two.
\<close>

definition clamp :: "rat \<Rightarrow> rat \<Rightarrow> rat \<Rightarrow> rat" where
  "clamp n lo hi = (if n < lo then lo else if hi < n then hi else n)"

section \<open>Concrete inputs\<close>

text \<open>Records, requests and worlds on which the theorems below are exercised.\<close>

definition seedCrown :: movie where
  "seedCrown =
     \<lparr>title = ''The  Crown'', description = ''Royal drama'', category = ''Drama'',
      type = ''series'', year = Fin 2016, rating = ''16+'', duration = ''6 Seasons'',
      imageUrl = ''crown.jpg'', backdropUrl = ''crown-wide.jpg'',
      trailerUrl = ''https://www.youtube.com/embed/JWtnJjn6ng0'', featured = True\<rparr>"

definition seedHeat :: movie where
  "seedHeat =
     \<lparr>title = ''Heat'', description = ''Crime saga'', category = ''Crime'',
      type = ''movie'', year = Fin 1995, rating = ''18+'', duration = ''2h 50m'',
      imageUrl = ''heat.jpg'', backdropUrl = ''heat-wide.jpg'',
      trailerUrl = ''https://www.youtube.com/embed/2GfZl4kuVNI'', featured = False\<rparr>"

definition seedOddType :: movie where
  "seedOddType = seedHeat\<lparr>title := ''Planet'', type := ''documentary''\<rparr>"

definition docHeat :: movieDoc where
  "docHeat = movie.extend seedHeat
               (movieDoc.fields 1 1700000000000 1700000000000)"

definition docCrown :: movieDoc where
  "docCrown = movie.extend seedCrown
                (movieDoc.fields (push_bit 92 1) 1700000000001 1700000000001)"

definition itemDune :: tmdbItem where
  "itemDune =
     \<lparr>item_id = 438631, item_title = ''Dune'', item_name = [],
      release_date = ''2021-09-15'', first_air_date = [], poster_path = ''/dune.jpg'',
      backdrop_path = [], overview = [], adult = False\<rparr>"

definition itemNoDate :: tmdbItem where
  "itemNoDate = itemDune\<lparr>release_date := []\<rparr>"

definition itemBadDate :: tmdbItem where
  "itemBadDate = itemDune\<lparr>release_date := ''TBA''\<rparr>"

definition videoTeaser :: video where
  "videoTeaser = \<lparr>video_site = ''YouTube'', video_type = ''Teaser'', video_key = ''n9xhJrPXop4''\<rparr>"

definition qNone :: query where
  "qNone =
     \<lparr>q_source = None, q_search = None, q_category = None, q_type = None,
      q_featured = None, q_limit = None, q_perCategory = None\<rparr>"

text \<open>
  An upstream that fails every fetch, and one that answers every listing with one item
  and every video lookup with one teaser.
\<close>

definition httpDown :: "string \<Rightarrow> (string \<times> string) list \<Rightarrow> payload option" where
  "httpDown path params = None"

definition httpUp :: "string \<Rightarrow> (string \<times> string) list \<Rightarrow> payload option" where
  "httpUp path params =
     (if path = ''/genre/movie/list''
      then Some (GenreList [\<lparr>genre_name = ''Action'', genre_id = 28\<rparr>])
      else if path = ''/genre/tv/list'' then Some NoFields
      else if path = ''/movie/438631/videos'' then Some (VideoList [videoTeaser])
      else if path = ''/trending/movie/week'' then Some (ItemList [itemDune])
      else Some NoFields)"

text \<open>
  The key is configured and the upstream fails; the store is not connected, or it is
  and returns one document.
\<close>

definition worldSeed :: world where
  "worldSeed =
     \<lparr>TMDB_API_KEY = Some ''key'', TMDB_COOLDOWN_MS_env = None, now = 1000,
      currentYear = 2026, http = httpDown, readyState = 0,
      Movie_find = (\<lambda>f n. None), seedMovies = [seedCrown, seedHeat]\<rparr>"

definition worldStore :: world where
  "worldStore = worldSeed\<lparr>readyState := 1, Movie_find := (\<lambda>f n. Some [docHeat])\<rparr>"

definition worldUp :: world where
  "worldUp = worldSeed\<lparr>http := httpUp\<rparr>"

definition worldNoKey :: world where
  "worldNoKey = worldSeed\<lparr>TMDB_API_KEY := None\<rparr>"

section \<open>The health tracker\<close>

lemma recordFailure_invariant:
  "0 \<le> tmdbFailureStreak h \<Longrightarrow>
   recordFailure w h =
     \<lparr>tmdbDisabledUntil = js_add (num (now w)) (TMDB_COOLDOWN_MS w),
      tmdbFailureStreak = tmdbFailureStreak h + 1\<rparr>"
  by (simp add: recordFailure_def Let_def)

lemma tryUpstream_failed:
  "upstreamEligible w q h \<Longrightarrow> getMoviesFromTmdb w q = Inl e \<Longrightarrow>
   tryUpstream w q h = (recordFailure w h, None, True)"
  by (simp add: tryUpstream_def)

lemma tryUpstream_answered:
  "upstreamEligible w q h \<Longrightarrow> getMoviesFromTmdb w q = Inr (h1, r) \<Longrightarrow>
   tryUpstream w q h = (h1, Some r, True)"
  by (simp add: tryUpstream_def)

lemma tryUpstream_disabled:
  "js_less (num (now w)) (tmdbDisabledUntil h) \<Longrightarrow> tryUpstream w q h = (h, None, False)"
  by (simp add: tryUpstream_def upstreamEligible_def tmdbDisabled_def js_greater_def)

lemma getMovies_invoked: "out_tmdbInvoked (getMovies w q h) = snd (snd (tryUpstream w q h))"
  by (simp add: getMovies_def split: prod.splits option.splits)

lemma getMovies_seed_health:
  "tryUpstream w q h = (h1, None, b) \<Longrightarrow> readyState w \<noteq> 1 \<Longrightarrow>
   out_health (getMovies w q h) = h1"
  by (simp add: getMovies_def storeOrSeed_def Let_def)

lemma getMoviesFromTmdb_resets:
  "getMoviesFromTmdb w q = Inr (h1, r) \<Longrightarrow>
   h1 = \<lparr>tmdbDisabledUntil = Fin 0, tmdbFailureStreak = 0\<rparr>"
  by (auto simp add: getMoviesFromTmdb_def Let_def split: sum.splits)

lemma getMoviesFromTmdb_down:
  "http w = httpDown \<Longrightarrow> str_truthy (TMDB_API_KEY w) \<Longrightarrow>
   getMoviesFromTmdb w q = Inl UpstreamFailure"
  by (simp add: getMoviesFromTmdb_def fetchGenreMap_def tmdbFetch_def httpDown_def)

text \<open>
  The streak is never negative: it is 0 when the module is loaded, and a request leaves
  it at 0, unchanged or one higher.
\<close>

lemma initialHealth_streak: "0 \<le> tmdbFailureStreak initialHealth"
  by (simp add: initialHealth_def)

lemma tryUpstream_streak:
  assumes "0 \<le> tmdbFailureStreak h"
  shows "0 \<le> tmdbFailureStreak (fst (tryUpstream w q h))"
proof (cases "upstreamEligible w q h")
  case False
  then show ?thesis using assms by (simp add: tryUpstream_def)
next
  case True
  show ?thesis
  proof (cases "getMoviesFromTmdb w q")
    case (Inl e)
    with True assms show ?thesis
      by (simp add: tryUpstream_failed recordFailure_invariant)
  next
    case (Inr p)
    obtain h1 r where p: "p = (h1, r)" by (cases p)
    with Inr True show ?thesis
      using getMoviesFromTmdb_resets [of w q h1 r] by (simp add: tryUpstream_answered)
  qed
qed

lemma getMovies_streak:
  assumes "0 \<le> tmdbFailureStreak h"
  shows "0 \<le> tmdbFailureStreak (out_health (getMovies w q h))"
proof -
  obtain h1 ro b where t: "tryUpstream w q h = (h1, ro, b)"
    by (cases "tryUpstream w q h") auto
  have h1: "0 \<le> tmdbFailureStreak h1"
    using tryUpstream_streak [OF assms, of w q] by (simp add: t)
  show ?thesis
    using h1 by (cases ro) (auto simp add: getMovies_def t storeOrSeed_def Let_def
        split: option.splits)
qed

text \<open>
  Claim C4. A \<open>getMovies\<close> request with \<open>source=db\<close> never invokes the upstream,
  whatever the health state is and whether or not an API key is configured.
\<close>

theorem source_db_skips_upstream:
  "q_source q = Some ''db'' \<Longrightarrow> \<not> out_tmdbInvoked (getMovies w q h)"
  by (simp add: getMovies_invoked tryUpstream_def upstreamEligible_def)

theorem source_db_skips_upstream_witness:
  "q_source (qNone\<lparr>q_source := Some ''db''\<rparr>) = Some ''db''
   \<and> \<not> out_tmdbInvoked (getMovies worldUp (qNone\<lparr>q_source := Some ''db''\<rparr>) initialHealth)"
  using source_db_skips_upstream [of "qNone\<lparr>q_source := Some ''db''\<rparr>" worldUp initialHealth]
  by simp

section \<open>Evaluation on the concrete worlds\<close>

lemma worldUp_genreMapMovie: "fetchGenreMap worldUp ''movie'' = Inr [''action'' \<mapsto> 28]"
  by (simp add: fetchGenreMap_def tmdbFetch_def worldUp_def worldSeed_def httpUp_def
      toLowerCase_def lowerChar_def)

lemma worldUp_genreMapTv: "fetchGenreMap worldUp ''series'' = Inr Map.empty"
  by (simp add: fetchGenreMap_def tmdbFetch_def worldUp_def worldSeed_def httpUp_def)

lemma worldUp_genreCategories:
  "genreCategories [''action'' \<mapsto> 28] Map.empty =
     [mkCategory ''Action Movies'' ''/discover/movie'' ''movie''
        [(''with_genres'', ''28''), (''sort_by'', ''popularity.desc'')]]"
  by (simp add: genreCategories_def genreCategory_def movieGenres_def tvGenres_def
      toLowerCase_def lowerChar_def digitChar_def String_nat.simps)

lemma perCategory_qNone: "perCategory qNone = Fin 16"
  by (simp add: perCategory_def qNone_def js_or_def)

lemma worldUp_categoryResults:
  "awaitAll (fetchCategory worldUp (Fin 16))
     (categories @ [mkCategory ''Action Movies'' ''/discover/movie'' ''movie''
                      [(''with_genres'', ''28''), (''sort_by'', ''popularity.desc'')]])
   = Inr ((hd categories, [itemDune])
          # map (\<lambda>c. (c, []))
              (tl categories @ [mkCategory ''Action Movies'' ''/discover/movie'' ''movie''
                                  [(''with_genres'', ''28''), (''sort_by'', ''popularity.desc'')]]))"
  by (simp add: categories_def mkCategory_def fetchCategory_def tmdbFetch_def worldUp_def
      worldSeed_def httpUp_def trunc_def)

lemma worldUp_trailerTargets:
  "trailerTargets ((hd categories, [itemDune]) # map (\<lambda>c. (c, [])) cs) = [(''438631'', ''movie'')]"
  by (cases cs) (simp_all add: trailerTargets_def categories_def mkCategory_def itemDune_def
      digitChar_def String_nat.simps)

lemma worldUp_trailerMap:
  "trailerMapOf worldUp [(''438631'', ''movie'')] =
     [''movie:438631'' \<mapsto> ''https://www.youtube.com/embed/n9xhJrPXop4'']"
  by (simp add: trailerMapOf_def trailerEntry_def fetchTrailerUrl_def videosPath_def
      pickVideo_def tmdbFetch_def worldUp_def worldSeed_def httpUp_def videoTeaser_def)

lemma worldUp_listingData:
  "listingData w tmap ((hd categories, [itemDune]) # map (\<lambda>c. (c, [])) cs) =
     [mapTmdbItem w itemDune ''Trending Movies'' ''movie'' tmap True]"
proof -
  have "concat (map (categoryData w tmap) (enumerate n (map (\<lambda>c. (c, [])) cs))) = []" for n
    by (induction cs arbitrary: n) (simp_all add: categoryData_def)
  then show ?thesis
    by (simp add: listingData_def categoryData_def categories_def mkCategory_def)
qed

lemma getMoviesFromTmdb_worldUp:
  "getMoviesFromTmdb worldUp qNone =
     Inr (\<lparr>tmdbDisabledUntil = Fin 0, tmdbFailureStreak = 0\<rparr>,
          Reply 200 (Listing 1
            [mapTmdbItem worldUp itemDune ''Trending Movies'' ''movie''
               [''movie:438631'' \<mapsto> ''https://www.youtube.com/embed/n9xhJrPXop4''] True]))"
  by (simp add: getMoviesFromTmdb_def worldUp_genreMapMovie worldUp_genreMapTv
      worldUp_genreCategories perCategory_qNone worldUp_categoryResults worldUp_trailerTargets
      worldUp_trailerMap worldUp_listingData del: map_append)

lemma worldSeed_eligible: "upstreamEligible worldSeed qNone initialHealth"
  by (simp add: upstreamEligible_def worldSeed_def qNone_def initialHealth_def
      tmdbDisabled_def js_greater_def num_def)

lemma worldStore_eligible: "upstreamEligible worldStore qNone initialHealth"
  by (simp add: upstreamEligible_def worldStore_def worldSeed_def qNone_def initialHealth_def
      tmdbDisabled_def js_greater_def num_def)

lemma worldUp_eligible: "upstreamEligible worldUp qNone initialHealth"
  by (simp add: upstreamEligible_def worldUp_def worldSeed_def qNone_def initialHealth_def
      tmdbDisabled_def js_greater_def num_def)

lemma worldSeed_fails: "getMoviesFromTmdb worldSeed qNone = Inl UpstreamFailure"
  by (rule getMoviesFromTmdb_down) (simp_all add: worldSeed_def)

lemma worldStore_fails: "getMoviesFromTmdb worldStore qNone = Inl UpstreamFailure"
  by (rule getMoviesFromTmdb_down) (simp_all add: worldStore_def worldSeed_def)

lemma cappedLimit_qNone: "cappedLimit qNone = Fin 200"
  by (simp add: cappedLimit_def qNone_def StringToNumber_def trim_def isWhiteSpace_def
      parseUnsignedDecimal_def isDigit_def digitsVal_def digitVal_def pow10_def js_or_def)

lemma filteredSeed_worldSeed: "filteredSeed worldSeed qNone = [seedCrown, seedHeat]"
  by (simp add: filteredSeed_def cappedLimit_qNone trunc_def) (simp add: qNone_def worldSeed_def)

lemma recordFailure_worldSeed:
  "recordFailure worldSeed initialHealth = \<lparr>tmdbDisabledUntil = Fin 301000, tmdbFailureStreak = 1\<rparr>"
  by (simp add: recordFailure_def initialHealth_def TMDB_COOLDOWN_MS_def worldSeed_def num_def)

section \<open>The cooldown after an upstream failure\<close>

lemma getMovies_store_throws_health:
  "tryUpstream w q h = (h1, None, b) \<Longrightarrow> readyState w = 1 \<Longrightarrow>
   Movie_find w (buildFilter q) (cappedLimit q) = None \<Longrightarrow>
   out_health (getMovies w q h) = h1"
  by (simp add: getMovies_def storeOrSeed_def)

lemma getMovies_store_answers_health:
  "tryUpstream w q h = (h1, None, b) \<Longrightarrow> readyState w = 1 \<Longrightarrow>
   Movie_find w (buildFilter q) (cappedLimit q) = Some docs \<Longrightarrow>
   out_health (getMovies w q h) = \<lparr>tmdbDisabledUntil = Fin 0, tmdbFailureStreak = 0\<rparr>"
  by (simp add: getMovies_def storeOrSeed_def)

text \<open>
  Claim C1, as the code has it. When the upstream attempt of a \<open>getMovies\<close> request
  fails, the \<open>catch\<close> raises the streak by one and sets \<open>tmdbDisabledUntil\<close> to
  \<open>now + TMDB_COOLDOWN_MS\<close>: \<open>now + 300000\<close> when no cooldown is configured, and a
  time not before \<open>now\<close> whenever the configured cooldown is a non-negative number
  (the value is not validated). The request leaves this state behind when the seed
  catalog answers it or the store query throws; when the store answers it, both
  variables are back at 0 at the end of the same request. Any request that arrives
  with \<open>now < tmdbDisabledUntil\<close> does not invoke the upstream. The streak is taken
  non-negative, as it always is (\<open>getMovies_streak\<close>).
\<close>

theorem upstream_failure_cooldown:
  assumes "upstreamEligible w q h"
    and "getMoviesFromTmdb w q = Inl e"
    and "0 \<le> tmdbFailureStreak h"
  shows "tryUpstream w q h = (recordFailure w h, None, True)
    \<and> out_tmdbInvoked (getMovies w q h)
    \<and> tmdbFailureStreak (recordFailure w h) = tmdbFailureStreak h + 1
    \<and> tmdbDisabledUntil (recordFailure w h) = js_add (num (now w)) (TMDB_COOLDOWN_MS w)
    \<and> (\<not> str_truthy (TMDB_COOLDOWN_MS_env w)
         \<longrightarrow> tmdbDisabledUntil (recordFailure w h) = Fin (of_int (now w) + 300000))
    \<and> (TMDB_COOLDOWN_MS w = Fin c \<and> 0 \<le> c
         \<longrightarrow> tmdbDisabledUntil (recordFailure w h) = Fin (of_int (now w) + c)
             \<and> js_ge (tmdbDisabledUntil (recordFailure w h)) (num (now w)))
    \<and> (readyState w \<noteq> 1 \<longrightarrow> out_health (getMovies w q h) = recordFailure w h)
    \<and> (readyState w = 1 \<and> Movie_find w (buildFilter q) (cappedLimit q) = None
         \<longrightarrow> out_health (getMovies w q h) = recordFailure w h)
    \<and> (readyState w = 1 \<and> Movie_find w (buildFilter q) (cappedLimit q) = Some docs
         \<longrightarrow> out_health (getMovies w q h)
               = \<lparr>tmdbDisabledUntil = Fin 0, tmdbFailureStreak = 0\<rparr>)
    \<and> (\<forall>w' q' h'. js_less (num (now w')) (tmdbDisabledUntil h')
           \<longrightarrow> \<not> out_tmdbInvoked (getMovies w' q' h'))"
proof -
  let ?h1 = "recordFailure w h"
  have step: "tryUpstream w q h = (?h1, None, True)"
    using assms(1,2) by (rule tryUpstream_failed)
  have inv: "out_tmdbInvoked (getMovies w q h)"
    by (simp add: getMovies_invoked step)
  have shape: "?h1 = \<lparr>tmdbDisabledUntil = js_add (num (now w)) (TMDB_COOLDOWN_MS w),
                       tmdbFailureStreak = tmdbFailureStreak h + 1\<rparr>"
    using assms(3) by (rule recordFailure_invariant)
  have streak: "tmdbFailureStreak ?h1 = tmdbFailureStreak h + 1"
    and until: "tmdbDisabledUntil ?h1 = js_add (num (now w)) (TMDB_COOLDOWN_MS w)"
    by (simp_all add: shape)
  have dflt: "\<not> str_truthy (TMDB_COOLDOWN_MS_env w)
         \<longrightarrow> tmdbDisabledUntil ?h1 = Fin (of_int (now w) + 300000)"
    by (simp add: until TMDB_COOLDOWN_MS_def num_def)
  have ge: "TMDB_COOLDOWN_MS w = Fin c \<and> 0 \<le> c
         \<longrightarrow> tmdbDisabledUntil ?h1 = Fin (of_int (now w) + c)
             \<and> js_ge (tmdbDisabledUntil ?h1) (num (now w))"
    by (auto simp add: until js_ge_def num_def)
  have seed: "readyState w \<noteq> 1 \<longrightarrow> out_health (getMovies w q h) = ?h1"
    using step by (simp add: getMovies_seed_health)
  have throws: "readyState w = 1 \<and> Movie_find w (buildFilter q) (cappedLimit q) = None
         \<longrightarrow> out_health (getMovies w q h) = ?h1"
    using step by (simp add: getMovies_store_throws_health)
  have reset: "readyState w = 1 \<and> Movie_find w (buildFilter q) (cappedLimit q) = Some docs
         \<longrightarrow> out_health (getMovies w q h)
               = \<lparr>tmdbDisabledUntil = Fin 0, tmdbFailureStreak = 0\<rparr>"
    using step by (simp add: getMovies_store_answers_health)
  have skip: "\<forall>w' q' h'. js_less (num (now w')) (tmdbDisabledUntil h')
                \<longrightarrow> \<not> out_tmdbInvoked (getMovies w' q' h')"
    by (simp add: getMovies_invoked tryUpstream_disabled)
  from step inv streak until dflt ge seed throws reset skip show ?thesis
    by blast
qed

theorem upstream_failure_cooldown_witness:
  "(upstreamEligible worldSeed qNone initialHealth
    \<and> getMoviesFromTmdb worldSeed qNone = Inl UpstreamFailure
    \<and> 0 \<le> tmdbFailureStreak initialHealth
    \<and> \<not> str_truthy (TMDB_COOLDOWN_MS_env worldSeed)
    \<and> TMDB_COOLDOWN_MS worldSeed = Fin 300000 \<and> (0::rat) \<le> 300000
    \<and> readyState worldSeed \<noteq> 1
    \<and> out_tmdbInvoked (getMovies worldSeed qNone initialHealth)
    \<and> out_health (getMovies worldSeed qNone initialHealth)
        = \<lparr>tmdbDisabledUntil = Fin 301000, tmdbFailureStreak = 1\<rparr>
    \<and> js_ge (Fin 301000) (num (now worldSeed))
    \<and> js_less (num (now (worldSeed\<lparr>now := 2000\<rparr>))) (Fin 301000)
    \<and> \<not> out_tmdbInvoked (getMovies (worldSeed\<lparr>now := 2000\<rparr>) qNone
            \<lparr>tmdbDisabledUntil = Fin 301000, tmdbFailureStreak = 1\<rparr>))
   \<and> (upstreamEligible worldStore qNone initialHealth
      \<and> getMoviesFromTmdb worldStore qNone = Inl UpstreamFailure
      \<and> readyState worldStore = 1
      \<and> Movie_find worldStore (buildFilter qNone) (cappedLimit qNone) = Some [docHeat]
      \<and> out_health (getMovies worldStore qNone initialHealth)
          = \<lparr>tmdbDisabledUntil = Fin 0, tmdbFailureStreak = 0\<rparr>)
   \<and> (upstreamEligible (worldStore\<lparr>Movie_find := (\<lambda>f n. None)\<rparr>) qNone initialHealth
      \<and> getMoviesFromTmdb (worldStore\<lparr>Movie_find := (\<lambda>f n. None)\<rparr>) qNone
          = Inl UpstreamFailure
      \<and> readyState (worldStore\<lparr>Movie_find := (\<lambda>f n. None)\<rparr>) = 1
      \<and> out_health (getMovies (worldStore\<lparr>Movie_find := (\<lambda>f n. None)\<rparr>) qNone initialHealth)
          = \<lparr>tmdbDisabledUntil = Fin 301000, tmdbFailureStreak = 1\<rparr>)"
proof -
  let ?wt = "worldStore\<lparr>Movie_find := (\<lambda>f n. None)\<rparr>"
  note s = initialHealth_streak
  have c: "\<not> str_truthy (TMDB_COOLDOWN_MS_env worldSeed)"
    "TMDB_COOLDOWN_MS worldSeed = Fin 300000" "(0::rat) \<le> 300000"
    by (simp_all add: TMDB_COOLDOWN_MS_def worldSeed_def)
  have r: "readyState worldSeed \<noteq> 1" "readyState worldStore = 1"
    "Movie_find worldStore (buildFilter qNone) (cappedLimit qNone) = Some [docHeat]"
    "readyState ?wt = 1" "Movie_find ?wt (buildFilter qNone) (cappedLimit qNone) = None"
    by (simp_all add: worldSeed_def worldStore_def)
  have et: "upstreamEligible ?wt qNone initialHealth"
    by (simp add: upstreamEligible_def worldStore_def worldSeed_def qNone_def initialHealth_def
        tmdbDisabled_def js_greater_def num_def)
  have ft: "getMoviesFromTmdb ?wt qNone = Inl UpstreamFailure"
    by (rule getMoviesFromTmdb_down) (simp_all add: worldStore_def worldSeed_def)
  have rt: "recordFailure ?wt initialHealth
              = \<lparr>tmdbDisabledUntil = Fin 301000, tmdbFailureStreak = 1\<rparr>"
    by (simp add: recordFailure_def initialHealth_def TMDB_COOLDOWN_MS_def worldStore_def
        worldSeed_def num_def)
  note seedT = upstream_failure_cooldown [OF worldSeed_eligible worldSeed_fails s,
      where c = 300000]
  note storeT = upstream_failure_cooldown [OF worldStore_eligible worldStore_fails s,
      where docs = "[docHeat]"]
  note throwT = upstream_failure_cooldown [OF et ft s]
  have a1: "out_tmdbInvoked (getMovies worldSeed qNone initialHealth)"
    using seedT by blast
  have "out_health (getMovies worldSeed qNone initialHealth)
          = recordFailure worldSeed initialHealth"
    using seedT r(1) by blast
  then have a2: "out_health (getMovies worldSeed qNone initialHealth)
        = \<lparr>tmdbDisabledUntil = Fin 301000, tmdbFailureStreak = 1\<rparr>"
    by (simp add: recordFailure_worldSeed)
  have "js_ge (tmdbDisabledUntil (recordFailure worldSeed initialHealth)) (num (now worldSeed))"
    using seedT c(2,3) by blast
  then have a3: "js_ge (Fin 301000) (num (now worldSeed))"
    by (simp add: recordFailure_worldSeed)
  have l: "js_less (num (now (worldSeed\<lparr>now := 2000\<rparr>))) (Fin 301000)"
    by (simp add: num_def)
  have a4: "\<not> out_tmdbInvoked (getMovies (worldSeed\<lparr>now := 2000\<rparr>) qNone
            \<lparr>tmdbDisabledUntil = Fin 301000, tmdbFailureStreak = 1\<rparr>)"
    using seedT l by simp
  have b1: "out_health (getMovies worldStore qNone initialHealth)
          = \<lparr>tmdbDisabledUntil = Fin 0, tmdbFailureStreak = 0\<rparr>"
    using storeT r(2,3) by blast
  have "out_health (getMovies ?wt qNone initialHealth) = recordFailure ?wt initialHealth"
    using throwT r(4,5) by blast
  then have t1: "out_health (getMovies ?wt qNone initialHealth)
          = \<lparr>tmdbDisabledUntil = Fin 301000, tmdbFailureStreak = 1\<rparr>"
    by (simp only: rt)
  from worldSeed_eligible worldSeed_fails s c r(1) a1 a2 a3 l a4
    worldStore_eligible worldStore_fails r(2,3) b1 et ft r(4) t1
  show ?thesis by blast
qed

text \<open>
  The claim as written lets every failed upstream attempt leave the streak incremented
  and the upstream disabled for the window that follows. With the store connected the
  request whose upstream attempt failed ends with both variables at 0, a time before
  \<open>now\<close>, and a request one second later, well inside that window, invokes the
  upstream again. And a configured cooldown of \<open>-1000\<close> sets \<open>tmdbDisabledUntil\<close>
  to a time before \<open>now\<close>.
\<close>

theorem store_answer_ends_cooldown:
  "upstreamEligible worldStore qNone initialHealth
   \<and> getMoviesFromTmdb worldStore qNone = Inl UpstreamFailure
   \<and> out_tmdbInvoked (getMovies worldStore qNone initialHealth)
   \<and> out_health (getMovies worldStore qNone initialHealth)
       = \<lparr>tmdbDisabledUntil = Fin 0, tmdbFailureStreak = 0\<rparr>
   \<and> tmdbFailureStreak initialHealth = 0
   \<and> \<not> js_ge (tmdbDisabledUntil (out_health (getMovies worldStore qNone initialHealth)))
          (num (now worldStore))
   \<and> now (worldStore\<lparr>now := 2000\<rparr>) = 2000
   \<and> out_tmdbInvoked (getMovies (worldStore\<lparr>now := 2000\<rparr>) qNone
         (out_health (getMovies worldStore qNone initialHealth)))
   \<and> TMDB_COOLDOWN_MS (worldSeed\<lparr>TMDB_COOLDOWN_MS_env := Some ''-1000''\<rparr>) = Fin (- 1000)
   \<and> out_health (getMovies (worldSeed\<lparr>TMDB_COOLDOWN_MS_env := Some ''-1000''\<rparr>) qNone
         initialHealth)
       = \<lparr>tmdbDisabledUntil = Fin 0, tmdbFailureStreak = 1\<rparr>
   \<and> \<not> js_ge (Fin 0) (num (now (worldSeed\<lparr>TMDB_COOLDOWN_MS_env := Some ''-1000''\<rparr>)))"
proof -
  let ?w2 = "worldStore\<lparr>now := 2000\<rparr>"
  let ?wn = "worldSeed\<lparr>TMDB_COOLDOWN_MS_env := Some ''-1000''\<rparr>"
  let ?reset = "\<lparr>tmdbDisabledUntil = Fin 0, tmdbFailureStreak = 0\<rparr>"
  have t: "tryUpstream worldStore qNone initialHealth
             = (recordFailure worldStore initialHealth, None, True)"
    using worldStore_eligible worldStore_fails by (rule tryUpstream_failed)
  have r: "readyState worldStore = 1"
    "Movie_find worldStore (buildFilter qNone) (cappedLimit qNone) = Some [docHeat]"
    "now worldStore = 1000"
    by (simp_all add: worldStore_def worldSeed_def)
  have inv: "out_tmdbInvoked (getMovies worldStore qNone initialHealth)"
    by (simp add: getMovies_invoked t)
  have h: "out_health (getMovies worldStore qNone initialHealth) = ?reset"
    using t r(1,2) by (rule getMovies_store_answers_health)
  have nge: "\<not> js_ge (tmdbDisabledUntil ?reset) (num (now worldStore))"
    by (simp add: r(3) js_ge_def num_def)
  have e2: "upstreamEligible ?w2 qNone ?reset"
    by (simp add: upstreamEligible_def worldStore_def worldSeed_def qNone_def
        tmdbDisabled_def js_greater_def num_def)
  have f2: "getMoviesFromTmdb ?w2 qNone = Inl UpstreamFailure"
    by (rule getMoviesFromTmdb_down) (simp_all add: worldStore_def worldSeed_def)
  have inv2: "out_tmdbInvoked (getMovies ?w2 qNone ?reset)"
    using tryUpstream_failed [OF e2 f2] by (simp add: getMovies_invoked)
  have cn: "TMDB_COOLDOWN_MS ?wn = Fin (- 1000)"
    by (simp add: TMDB_COOLDOWN_MS_def StringToNumber_def trim_def isWhiteSpace_def
        parseUnsignedDecimal_def isDigit_def digitsVal_def digitVal_def pow10_def)
  have en: "upstreamEligible ?wn qNone initialHealth"
    by (simp add: upstreamEligible_def worldSeed_def qNone_def initialHealth_def
        tmdbDisabled_def js_greater_def num_def)
  have fn: "getMoviesFromTmdb ?wn qNone = Inl UpstreamFailure"
    by (rule getMoviesFromTmdb_down) (simp_all add: worldSeed_def)
  have rn: "recordFailure ?wn initialHealth = \<lparr>tmdbDisabledUntil = Fin 0, tmdbFailureStreak = 1\<rparr>"
    by (simp add: recordFailure_def initialHealth_def cn) (simp add: worldSeed_def num_def)
  have hn: "out_health (getMovies ?wn qNone initialHealth)
              = \<lparr>tmdbDisabledUntil = Fin 0, tmdbFailureStreak = 1\<rparr>"
    using getMovies_seed_health [OF tryUpstream_failed [OF en fn], unfolded rn]
    by (simp add: worldSeed_def)
  have ngen: "\<not> js_ge (Fin 0) (num (now ?wn))"
    by (simp add: worldSeed_def js_ge_def num_def)
  have s0: "tmdbFailureStreak initialHealth = 0" "now ?w2 = 2000"
    by (simp_all add: initialHealth_def)
  from worldStore_eligible worldStore_fails inv h s0 nge inv2 cn hn ngen
  show ?thesis by simp
qed

section \<open>Which replies reset the health state\<close>

text \<open>
  Claim C2, as the code has it. After an upstream failure the health state is reset
  (streak 0, \<open>tmdbDisabledUntil\<close> 0) when the store answers the request, and a
  successful upstream fetch resets it as well; a reply served from the seed catalog
  does not reset anything: the state stays as the failure handler left it.
\<close>

theorem store_and_upstream_reset_seed_keeps:
  "(upstreamEligible w q h \<and> getMoviesFromTmdb w q = Inr (h1, r)
      \<longrightarrow> out_health (getMovies w q h) = \<lparr>tmdbDisabledUntil = Fin 0, tmdbFailureStreak = 0\<rparr>
          \<and> out_reply (getMovies w q h) = r)
   \<and> (upstreamEligible w q h \<and> getMoviesFromTmdb w q = Inl e \<and> readyState w = 1
        \<and> Movie_find w (buildFilter q) (cappedLimit q) = Some docs
      \<longrightarrow> out_health (getMovies w q h) = \<lparr>tmdbDisabledUntil = Fin 0, tmdbFailureStreak = 0\<rparr>
          \<and> out_reply (getMovies w q h)
              = Reply 200 (Listing (length docs) (map normalizeMovie docs)))
   \<and> (upstreamEligible w q h \<and> getMoviesFromTmdb w q = Inl e \<and> readyState w \<noteq> 1
      \<longrightarrow> out_health (getMovies w q h) = recordFailure w h
          \<and> out_reply (getMovies w q h)
              = Reply 200 (Listing (length (filteredSeed w q))
                             (map normalizeSeedMovie (filteredSeed w q))))"
proof (intro conjI impI)
  assume a: "upstreamEligible w q h \<and> getMoviesFromTmdb w q = Inr (h1, r)"
  then have t: "tryUpstream w q h = (h1, Some r, True)"
    by (simp add: tryUpstream_answered)
  from a have h1: "h1 = \<lparr>tmdbDisabledUntil = Fin 0, tmdbFailureStreak = 0\<rparr>"
    using getMoviesFromTmdb_resets by blast
  show "out_health (getMovies w q h) = \<lparr>tmdbDisabledUntil = Fin 0, tmdbFailureStreak = 0\<rparr>"
    by (simp add: getMovies_def t h1)
  show "out_reply (getMovies w q h) = r"
    by (simp add: getMovies_def t)
next
  assume a: "upstreamEligible w q h \<and> getMoviesFromTmdb w q = Inl e \<and> readyState w = 1
        \<and> Movie_find w (buildFilter q) (cappedLimit q) = Some docs"
  then have t: "tryUpstream w q h = (recordFailure w h, None, True)"
    by (simp add: tryUpstream_failed)
  show "out_health (getMovies w q h) = \<lparr>tmdbDisabledUntil = Fin 0, tmdbFailureStreak = 0\<rparr>"
    using a by (simp add: getMovies_def t storeOrSeed_def)
  show "out_reply (getMovies w q h) = Reply 200 (Listing (length docs) (map normalizeMovie docs))"
    using a by (simp add: getMovies_def t storeOrSeed_def)
next
  assume a: "upstreamEligible w q h \<and> getMoviesFromTmdb w q = Inl e \<and> readyState w \<noteq> 1"
  then have t: "tryUpstream w q h = (recordFailure w h, None, True)"
    by (simp add: tryUpstream_failed)
  show "out_health (getMovies w q h) = recordFailure w h"
    using a by (simp add: getMovies_def t storeOrSeed_def Let_def)
  show "out_reply (getMovies w q h)
              = Reply 200 (Listing (length (filteredSeed w q))
                             (map normalizeSeedMovie (filteredSeed w q)))"
    using a by (simp add: getMovies_def t storeOrSeed_def Let_def)
qed

theorem store_and_upstream_reset_seed_keeps_witness:
  "(upstreamEligible worldUp qNone initialHealth
    \<and> getMoviesFromTmdb worldUp qNone
        = Inr (\<lparr>tmdbDisabledUntil = Fin 0, tmdbFailureStreak = 0\<rparr>,
               Reply 200 (Listing 1
                 [mapTmdbItem worldUp itemDune ''Trending Movies'' ''movie''
                    [''movie:438631'' \<mapsto> ''https://www.youtube.com/embed/n9xhJrPXop4''] True]))
    \<and> out_health (getMovies worldUp qNone initialHealth)
        = \<lparr>tmdbDisabledUntil = Fin 0, tmdbFailureStreak = 0\<rparr>)
   \<and> (upstreamEligible worldStore qNone initialHealth
      \<and> getMoviesFromTmdb worldStore qNone = Inl UpstreamFailure
      \<and> readyState worldStore = 1
      \<and> Movie_find worldStore (buildFilter qNone) (cappedLimit qNone) = Some [docHeat]
      \<and> out_health (getMovies worldStore qNone initialHealth)
          = \<lparr>tmdbDisabledUntil = Fin 0, tmdbFailureStreak = 0\<rparr>
      \<and> out_reply (getMovies worldStore qNone initialHealth)
          = Reply 200 (Listing 1 [normalizeMovie docHeat]))
   \<and> (upstreamEligible worldSeed qNone initialHealth
      \<and> getMoviesFromTmdb worldSeed qNone = Inl UpstreamFailure
      \<and> readyState worldSeed \<noteq> 1
      \<and> out_health (getMovies worldSeed qNone initialHealth)
          = \<lparr>tmdbDisabledUntil = Fin 301000, tmdbFailureStreak = 1\<rparr>)"
proof -
  let ?r = "Reply 200 (Listing 1
                 [mapTmdbItem worldUp itemDune ''Trending Movies'' ''movie''
                    [''movie:438631'' \<mapsto> ''https://www.youtube.com/embed/n9xhJrPXop4''] True])"
  have s1: "readyState worldStore = 1"
    "Movie_find worldStore (buildFilter qNone) (cappedLimit qNone) = Some [docHeat]"
    by (simp_all add: worldStore_def worldSeed_def)
  have s2: "readyState worldSeed \<noteq> 1"
    by (simp add: worldSeed_def)
  have up: "out_health (getMovies worldUp qNone initialHealth)
              = \<lparr>tmdbDisabledUntil = Fin 0, tmdbFailureStreak = 0\<rparr>"
    using store_and_upstream_reset_seed_keeps
            [where w = worldUp and q = qNone and h = initialHealth
               and ?h1.0 = "\<lparr>tmdbDisabledUntil = Fin 0, tmdbFailureStreak = 0\<rparr>"
               and r = ?r, THEN conjunct1]
          worldUp_eligible getMoviesFromTmdb_worldUp by blast
  have store: "out_health (getMovies worldStore qNone initialHealth)
                 = \<lparr>tmdbDisabledUntil = Fin 0, tmdbFailureStreak = 0\<rparr>
               \<and> out_reply (getMovies worldStore qNone initialHealth)
                 = Reply 200 (Listing (length [docHeat]) (map normalizeMovie [docHeat]))"
    using store_and_upstream_reset_seed_keeps
            [where w = worldStore and q = qNone and h = initialHealth
               and e = UpstreamFailure and docs = "[docHeat]", THEN conjunct2, THEN conjunct1]
          worldStore_eligible worldStore_fails s1 by blast
  have seed: "out_health (getMovies worldSeed qNone initialHealth)
                = recordFailure worldSeed initialHealth"
    using store_and_upstream_reset_seed_keeps
            [where w = worldSeed and q = qNone and h = initialHealth and e = UpstreamFailure,
             THEN conjunct2, THEN conjunct2]
          worldSeed_eligible worldSeed_fails s2 by blast
  from up store seed s1 s2 show ?thesis
    by (simp add: worldUp_eligible getMoviesFromTmdb_worldUp worldStore_eligible
        worldStore_fails worldSeed_eligible worldSeed_fails recordFailure_worldSeed)
qed

text \<open>
  The claim as written also lets the seed catalog reset the state. It does not: with
  the upstream failing and the store not connected, the request is answered from the
  seed catalog and ends with the streak at 1 and the upstream disabled until 301000.
\<close>

theorem seed_fallback_keeps_failure_state:
  "getMoviesFromTmdb worldSeed qNone = Inl UpstreamFailure
   \<and> out_tmdbInvoked (getMovies worldSeed qNone initialHealth)
   \<and> out_reply (getMovies worldSeed qNone initialHealth)
       = Reply 200 (Listing 2 [normalizeSeedMovie seedCrown, normalizeSeedMovie seedHeat])
   \<and> out_health (getMovies worldSeed qNone initialHealth)
       = \<lparr>tmdbDisabledUntil = Fin 301000, tmdbFailureStreak = 1\<rparr>"
proof -
  have t: "tryUpstream worldSeed qNone initialHealth
             = (\<lparr>tmdbDisabledUntil = Fin 301000, tmdbFailureStreak = 1\<rparr>, None, True)"
    using tryUpstream_failed [OF worldSeed_eligible worldSeed_fails]
    by (simp add: recordFailure_worldSeed)
  have r: "readyState worldSeed = 0" by (simp add: worldSeed_def)
  show ?thesis
    by (simp add: worldSeed_fails getMovies_def t storeOrSeed_def r filteredSeed_worldSeed)
qed

section \<open>The ids of the three normalization functions\<close>

lemma hexChar_hex: "hexChar d \<in> set ''0123456789abcdef''"
  unfolding hexChar_def by (rule nth_mem) simp

lemma ObjectId_toString_hex: "set (ObjectId_toString w) \<subseteq> set ''0123456789abcdef''"
  unfolding ObjectId_toString_def using hexChar_hex by auto

lemma ObjectId_toString_length: "length (ObjectId_toString w) = 24"
  by (simp add: ObjectId_toString_def)

lemma ObjectId_toString_hd: "hd (ObjectId_toString w) \<in> set ''0123456789abcdef''"
proof -
  have "ObjectId_toString w \<noteq> []"
    using ObjectId_toString_length [of w] by auto
  then have "hd (ObjectId_toString w) \<in> set (ObjectId_toString w)" by simp
  with ObjectId_toString_hex show ?thesis by blast
qed

lemma ObjectId_not_prefixed:
  "ObjectId_toString w \<noteq> CHR ''t'' # xs" "ObjectId_toString w \<noteq> CHR ''s'' # xs"
  using ObjectId_toString_hd [of w] by auto

lemma mapTmdbItem_id:
  "cr_id (mapTmdbItem w item cat ty tm f) = ''tmdb-'' @ ty @ ''-'' @ String_nat (item_id item)"
  by (simp add: mapTmdbItem_def Let_def)

lemma normalizeSeedMovie_id:
  "cr_id (normalizeSeedMovie s) = ''seed-'' @ hyphenate (toLowerCase (title s))"
  by (simp add: normalizeSeedMovie_def)

lemma normalizeMovie_id: "cr_id (normalizeMovie d) = ObjectId_toString (doc_id d)"
  by (simp add: normalizeMovie_def)

text \<open>
  Claim C3, as the code has it. An upstream id starts with \<open>tmdb-\<close> and a seed id
  with \<open>seed-\<close>; the id of a stored document is its ObjectId printed as 24
  hexadecimal digits, with no prefix in front. The three id spaces are pairwise
  disjoint all the same, since a string of hexadecimal digits starts with neither
  prefix.
\<close>

theorem id_spaces_disjoint:
  "prefix ''tmdb-'' (cr_id (mapTmdbItem w item cat ty tm f))
   \<and> prefix ''seed-'' (cr_id (normalizeSeedMovie s))
   \<and> cr_id (normalizeMovie d) = ObjectId_toString (doc_id d)
   \<and> length (cr_id (normalizeMovie d)) = 24
   \<and> list_all (\<lambda>c. c \<in> set ''0123456789abcdef'') (cr_id (normalizeMovie d))
   \<and> cr_id (mapTmdbItem w item cat ty tm f) \<noteq> cr_id (normalizeMovie d)
   \<and> cr_id (normalizeSeedMovie s) \<noteq> cr_id (normalizeMovie d)
   \<and> cr_id (mapTmdbItem w item cat ty tm f) \<noteq> cr_id (normalizeSeedMovie s)"
proof -
  have p1: "prefix ''tmdb-'' (cr_id (mapTmdbItem w item cat ty tm f))"
    by (simp add: mapTmdbItem_id)
  have p2: "prefix ''seed-'' (cr_id (normalizeSeedMovie s))"
    by (simp add: normalizeSeedMovie_id)
  have hex: "list_all (\<lambda>c. c \<in> set ''0123456789abcdef'') (cr_id (normalizeMovie d))"
    using ObjectId_toString_hex [of "doc_id d"]
    unfolding list_all_iff normalizeMovie_id by blast
  have a: "cr_id (mapTmdbItem w item cat ty tm f) \<noteq> cr_id (normalizeMovie d)"
    using ObjectId_not_prefixed(1) [of "doc_id d" "''mdb-'' @ ty @ ''-'' @ String_nat (item_id item)"]
    unfolding mapTmdbItem_id normalizeMovie_id by simp
  have b: "cr_id (normalizeSeedMovie s) \<noteq> cr_id (normalizeMovie d)"
    using ObjectId_not_prefixed(2) [of "doc_id d" "''eed-'' @ hyphenate (toLowerCase (title s))"]
    unfolding normalizeSeedMovie_id normalizeMovie_id by simp
  have c: "cr_id (mapTmdbItem w item cat ty tm f) \<noteq> cr_id (normalizeSeedMovie s)"
    unfolding mapTmdbItem_id normalizeSeedMovie_id by simp
  from p1 p2 hex a b c show ?thesis
    by (simp add: normalizeMovie_id ObjectId_toString_length)
qed

text \<open>
  The claim as written gives the store ids a prefix of their own. They have none: the
  ids of two stored documents are the bare digit strings, and no non-empty string is
  a prefix of both.
\<close>

lemma store_ids_concrete: "cr_id (normalizeMovie docHeat) = ''000000000000000000000001''"
    "cr_id (normalizeMovie docCrown) = ''100000000000000000000000''"
  by (simp_all add: normalizeMovie_def docHeat_def docCrown_def movie.defs movieDoc.defs
      ObjectId_toString_def hexChar_def upt_rec drop_bit_eq_div unat_div push_bit_eq_mult)

theorem store_ids_carry_no_prefix:
  "cr_id (normalizeMovie docHeat) = ''000000000000000000000001''
   \<and> cr_id (normalizeMovie docCrown) = ''100000000000000000000000''
   \<and> \<not> (\<exists>p. p \<noteq> [] \<and> prefix p (cr_id (normalizeMovie docHeat))
             \<and> prefix p (cr_id (normalizeMovie docCrown)))"
proof -
  have "p = []" if "prefix p ''000000000000000000000001''" "prefix p ''100000000000000000000000''" for p
    using that by (cases p) auto
  then show ?thesis by (auto simp add: store_ids_concrete)
qed

section \<open>Facts about limits and the upstream listing\<close>

lemma js_clamp_cases:
  assumes "lo \<le> hi" "lo \<le> d" "d \<le> hi"
  shows "Math_min (Math_max (js_or n (Fin d)) (Fin lo)) (Fin hi) =
           (case n of
              NaN \<Rightarrow> Fin d
            | NegInf \<Rightarrow> Fin lo
            | PosInf \<Rightarrow> Fin hi
            | Fin v \<Rightarrow> if v = 0 then Fin d else Fin (clamp v lo hi))"
  using assms by (cases n) (auto simp add: js_or_def clamp_def)

lemma perCategory_cases:
  "perCategory q =
     (case Number_of (q_perCategory q) of
        NaN \<Rightarrow> Fin 16
      | NegInf \<Rightarrow> Fin 6
      | PosInf \<Rightarrow> Fin 40
      | Fin v \<Rightarrow> if v = 0 then Fin 16 else Fin (clamp v 6 40))"
  unfolding perCategory_def by (rule js_clamp_cases) simp_all

lemma clamp_bounds: "lo \<le> hi \<Longrightarrow> lo \<le> clamp n lo hi \<and> clamp n lo hi \<le> hi"
  by (simp add: clamp_def)

lemma perCategory_range: "\<exists>p. perCategory q = Fin p \<and> 6 \<le> p \<and> p \<le> 40"
  using clamp_bounds [of 6 40]
  by (cases "Number_of (q_perCategory q)") (simp_all add: perCategory_cases)

lemma slice0_length:
  assumes "0 \<le> p"
  shows "js_le (num (int (length (slice0 (Fin p) xs)))) (Fin p)"
proof -
  have t: "0 \<le> trunc p" "of_int (trunc p) \<le> p"
    using assms by (simp_all add: trunc_def)
  have "int (length (slice0 (Fin p) xs)) \<le> trunc p"
    using t(1) by (simp add: Let_def)
  then have "(of_int (int (length (slice0 (Fin p) xs))) :: rat) \<le> of_int (trunc p)"
    by (simp only: of_int_le_iff)
  with t(2) have "(of_int (int (length (slice0 (Fin p) xs))) :: rat) \<le> p"
    by linarith
  then show ?thesis
    by (auto simp add: num_def)
qed

lemma awaitAll_Inr:
  "awaitAll f xs = Inr ys \<Longrightarrow> list_all2 (\<lambda>x y. f x = Inr y) xs ys"
  by (induction xs arbitrary: ys) (auto split: sum.splits)

lemma fetchCategory_Inr:
  "fetchCategory w n c = Inr cr \<Longrightarrow> fst cr = c \<and> (\<exists>xs. snd cr = slice0 n xs)"
  by (auto simp add: fetchCategory_def split: sum.splits)

lemma categoryResults_shape:
  assumes "awaitAll (fetchCategory w n) cs = Inr crs"
  shows "map fst crs = cs \<and> (\<forall>cr \<in> set crs. \<exists>xs. snd cr = slice0 n xs)"
proof -
  have "list_all2 (\<lambda>c cr. fetchCategory w n c = Inr cr) cs crs"
    using assms by (rule awaitAll_Inr)
  then show ?thesis
    by (induction rule: list_all2_induct) (auto dest: fetchCategory_Inr)
qed

lemma categoryData_fields:
  "map cr_category (categoryData w tm (i, c, rs)) = replicate (length rs) (cat_title c)"
  "map cr_type (categoryData w tm (i, c, rs)) = replicate (length rs) (cat_type c)"
  by (simp_all add: categoryData_def mapTmdbItem_def Let_def map_replicate_const
      split_def comp_def)

lemma listingData_enumerate:
  "map cr_category (concat (map (categoryData w tm) (enumerate n crs))) =
     concat (map (\<lambda>cr. replicate (length (snd cr)) (cat_title (fst cr))) crs)"
  "map cr_type (concat (map (categoryData w tm) (enumerate n crs))) =
     concat (map (\<lambda>cr. replicate (length (snd cr)) (cat_type (fst cr))) crs)"
  by (induction crs arbitrary: n) (auto simp add: categoryData_fields)

lemma listingData_fields:
  "map cr_category (listingData w tm crs) =
     concat (map (\<lambda>cr. replicate (length (snd cr)) (cat_title (fst cr))) crs)"
  "map cr_type (listingData w tm crs) =
     concat (map (\<lambda>cr. replicate (length (snd cr)) (cat_type (fst cr))) crs)"
  by (simp_all add: listingData_def listingData_enumerate)


lemma count_of_distinct_key:
  assumes "distinct (map f xs)" and "\<forall>x \<in> set xs. g x \<le> (b::nat)"
  shows "length (filter (\<lambda>y. y = t) (concat (map (\<lambda>x. replicate (g x) (f x)) xs))) \<le> b"
  using assms
proof (induction xs)
  case Nil
  then show ?case by simp
next
  case (Cons x xs)
  show ?case
  proof (cases "f x = t")
    case True
    have "f x \<notin> set (map f xs)"
      using Cons.prems(1) by simp
    then have "\<forall>x' \<in> set xs. f x' \<noteq> t"
      unfolding True [symmetric] set_map by (metis imageI)
    then have "filter (\<lambda>y. y = t) (concat (map (\<lambda>x. replicate (g x) (f x)) xs)) = []"
      by (auto simp add: filter_empty_conv)
    with True Cons.prems(2) show ?thesis by simp
  next
    case False
    with Cons show ?thesis by simp
  qed
qed

lemma single_title_count:
  assumes "distinct (map cat_title (map fst crs))"
    and "\<forall>cr \<in> set crs. length (snd cr) \<le> b"
  shows "length (filter (\<lambda>x. x = t)
           (concat (map (\<lambda>cr. replicate (length (snd cr)) (cat_title (fst cr))) crs))) \<le> b"
  using count_of_distinct_key [of "\<lambda>cr. cat_title (fst cr)" crs "\<lambda>cr. length (snd cr)" b t] assms
  by (simp add: comp_def)

lemma genreCategory_titles:
  "map cat_title (genreCategory gm sfx path ty name) = []
   \<or> map cat_title (genreCategory gm sfx path ty name) = [name @ sfx]"
  by (simp add: genreCategory_def mkCategory_def split: option.splits)

lemma genreCategory_cases:
  "genreCategory gm sfx path ty name = []
   \<or> (\<exists>ps. genreCategory gm sfx path ty name = [mkCategory (name @ sfx) path ty ps])"
  by (auto simp add: genreCategory_def split: option.splits)

lemma genreCategory_type:
  assumes "c \<in> set (genreCategory gm sfx path ty name)"
  shows "cat_type c = ty"
proof -
  from genreCategory_cases [of gm sfx path ty name] assms
  obtain ps where "c = mkCategory (name @ sfx) path ty ps"
    by auto
  then show ?thesis by (simp add: mkCategory_def)
qed

lemma genre_titles_subset:
  "set (map cat_title (concat (map (genreCategory gm sfx path ty) names)))
     \<subseteq> set (map (\<lambda>n. n @ sfx) names)"
proof (induction names)
  case Nil
  then show ?case by simp
next
  case (Cons name names)
  then show ?case
    using genreCategory_titles [of gm sfx path ty name] by auto
qed

lemma genre_titles_distinct:
  "distinct (map (\<lambda>n. n @ sfx) names) \<Longrightarrow>
   distinct (map cat_title (concat (map (genreCategory gm sfx path ty) names)))"
proof (induction names)
  case Nil
  then show ?case by simp
next
  case (Cons name names)
  let ?rest = "map cat_title (concat (map (genreCategory gm sfx path ty) names))"
  have rest: "distinct ?rest"
    using Cons by simp
  have fresh: "name @ sfx \<notin> set ?rest"
  proof
    assume "name @ sfx \<in> set ?rest"
    then have "name @ sfx \<in> set (map (\<lambda>n. n @ sfx) names)"
      using genre_titles_subset [of gm sfx path ty names] by blast
    with Cons.prems show False by simp
  qed
  from genreCategory_titles [of gm sfx path ty name] show ?case
  proof
    assume "map cat_title (genreCategory gm sfx path ty name) = []"
    with rest show ?thesis by simp
  next
    assume "map cat_title (genreCategory gm sfx path ty name) = [name @ sfx]"
    with rest fresh show ?thesis by simp
  qed
qed

lemma all_titles_distinct:
  "distinct (map cat_title categories @ map (\<lambda>n. n @ '' Movies'') movieGenres
             @ map (\<lambda>n. n @ '' TV'') tvGenres)"
  by (simp add: categories_def mkCategory_def movieGenres_def tvGenres_def)

lemma category_titles_distinct:
  "distinct (map cat_title (categories @ genreCategories gm gt))"
proof -
  let ?F = "map cat_title categories"
  let ?Ms = "map (\<lambda>n. n @ '' Movies'') movieGenres"
  let ?Ts = "map (\<lambda>n. n @ '' TV'') tvGenres"
  let ?M = "map cat_title (concat (map (genreCategory gm '' Movies'' ''/discover/movie'' ''movie'') movieGenres))"
  let ?T = "map cat_title (concat (map (genreCategory gt '' TV'' ''/discover/tv'' ''series'') tvGenres))"
  have all: "distinct (?F @ ?Ms @ ?Ts)"
    by (rule all_titles_distinct)
  have dF: "distinct ?F" and dMs: "distinct ?Ms" and dTs: "distinct ?Ts"
    using all by (simp_all only: distinct_append) 
  have s1: "set ?F \<inter> set ?Ms = {}" and s2: "set ?F \<inter> set ?Ts = {}"
    and s3: "set ?Ms \<inter> set ?Ts = {}"
    using all by (auto simp only: distinct_append set_append)
  have dM: "distinct ?M" using dMs by (rule genre_titles_distinct)
  have dT: "distinct ?T" using dTs by (rule genre_titles_distinct)
  have sM: "set ?M \<subseteq> set ?Ms" by (rule genre_titles_subset)
  have sT: "set ?T \<subseteq> set ?Ts" by (rule genre_titles_subset)
  have "distinct (?F @ ?M @ ?T)"
    unfolding distinct_append set_append using dF dM dT s1 s2 s3 sM sT by blast
  then show ?thesis
    by (simp add: genreCategories_def)
qed

lemma fixed_category_types:
  "list_all (\<lambda>c. cat_type c = ''movie'' \<or> cat_type c = ''series'') categories"
  by (simp add: categories_def mkCategory_def)

lemma genreCategories_types:
  "c \<in> set (genreCategories gm gt) \<Longrightarrow> cat_type c = ''movie'' \<or> cat_type c = ''series''"
  unfolding genreCategories_def set_append set_concat set_map
  by (blast dest: genreCategory_type)

lemma category_types:
  "c \<in> set (categories @ genreCategories gm gt) \<Longrightarrow>
   cat_type c = ''movie'' \<or> cat_type c = ''series''"
  using fixed_category_types genreCategories_types [of c gm gt]
  unfolding list_all_iff set_append by blast

lemma getMoviesFromTmdb_Inr:
  assumes "getMoviesFromTmdb w q = Inr (h1, r)"
  obtains gm gt crs tm where
    "awaitAll (fetchCategory w (perCategory q)) (categories @ genreCategories gm gt) = Inr crs"
    "r = Reply 200 (Listing (length (listingData w tm crs)) (listingData w tm crs))"
  using assms
  by (auto simp add: getMoviesFromTmdb_def Let_def split: sum.splits)

lemma upstream_types:
  assumes "getMoviesFromTmdb w q = Inr (h1, Reply st (Listing n data))"
  shows "list_all (\<lambda>r. cr_type r = ''movie'' \<or> cr_type r = ''series'') data"
proof -
  from assms obtain gm gt crs tm where
    crs: "awaitAll (fetchCategory w (perCategory q)) (categories @ genreCategories gm gt) = Inr crs"
    and data: "data = listingData w tm crs"
    by (auto elim: getMoviesFromTmdb_Inr)
  have fst: "map fst crs = categories @ genreCategories gm gt"
    using categoryResults_shape [OF crs] by simp
  have "\<forall>cr \<in> set crs. cat_type (fst cr) = ''movie'' \<or> cat_type (fst cr) = ''series''"
  proof
    fix cr assume "cr \<in> set crs"
    then have "fst cr \<in> set (map fst crs)" by simp
    then show "cat_type (fst cr) = ''movie'' \<or> cat_type (fst cr) = ''series''"
      unfolding fst by (rule category_types)
  qed
  then have "\<forall>x \<in> set (map cr_type data). x = ''movie'' \<or> x = ''series''"
    unfolding data listingData_fields by auto
  then show ?thesis
    by (simp add: list_all_iff)
qed

lemma upstream_category_sizes:
  assumes "getMoviesFromTmdb w q = Inr (h1, Reply st (Listing n data))"
    and "perCategory q = Fin p"
  shows "js_le (num (int (length (filter (\<lambda>r. cr_category r = t) data)))) (Fin p)"
proof -
  from assms obtain gm gt crs tm where
    crs: "awaitAll (fetchCategory w (Fin p)) (categories @ genreCategories gm gt) = Inr crs"
    and data: "data = listingData w tm crs"
    by (auto elim: getMoviesFromTmdb_Inr)
  have p: "0 \<le> p"
    using perCategory_range [of q] assms(2) by auto
  have fst: "map fst crs = categories @ genreCategories gm gt"
    and sl: "\<forall>cr \<in> set crs. \<exists>xs. snd cr = slice0 (Fin p) xs"
    using categoryResults_shape [OF crs] by simp_all
  have d: "distinct (map cat_title (map fst crs))"
    unfolding fst by (rule category_titles_distinct)
  have b: "\<forall>cr \<in> set crs. length (snd cr) \<le> nat (trunc p)"
  proof
    fix cr assume "cr \<in> set crs"
    with sl obtain xs where "snd cr = slice0 (Fin p) xs" by blast
    moreover have "0 \<le> trunc p" using p by (simp add: trunc_def)
    ultimately show "length (snd cr) \<le> nat (trunc p)"
      by (simp add: Let_def)
  qed
  have "length (filter (\<lambda>r. cr_category r = t) data)
          = length (filter (\<lambda>x. x = t) (map cr_category data))"
    by (simp add: comp_def)
  also have "\<dots> \<le> nat (trunc p)"
    unfolding data listingData_fields using d b by (rule single_title_count)
  finally have "length (filter (\<lambda>r. cr_category r = t) data) \<le> nat (trunc p)" .
  moreover have tp: "0 \<le> trunc p"
    using p by (simp add: trunc_def)
  ultimately have "int (length (filter (\<lambda>r. cr_category r = t) data)) \<le> trunc p"
    by linarith
  then have "(of_int (int (length (filter (\<lambda>r. cr_category r = t) data))) :: rat)
               \<le> of_int (trunc p)"
    by (simp only: of_int_le_iff)
  moreover have "of_int (trunc p) \<le> p"
    using p by (simp add: trunc_def)
  ultimately have "(of_int (int (length (filter (\<lambda>r. cr_category r = t) data))) :: rat) \<le> p"
    by linarith
  then show ?thesis
    by (auto simp add: num_def)
qed

text \<open>The definitions that evaluate \<open>Number\<close> on a string literal.\<close>

lemmas Number_eval =
  StringToNumber_def trim_def isWhiteSpace_def parseUnsignedDecimal_def isDigit_def
  digitsVal_def digitVal_def pow10_def

section \<open>The type field\<close>

text \<open>
  Claim C6, as the code has it. Each normalization function copies the type it is
  given: the type of the stored document, of the seed record, or the type argument of
  \<open>mapTmdbItem\<close>. None of them maps an unrecognized value to \<open>movie\<close>. The
  records of a successful upstream listing have the type \<open>movie\<close> or \<open>series\<close>,
  because \<open>getMoviesFromTmdb\<close> takes the type from its own category table.
\<close>

theorem normalizers_copy_type:
  "cr_type (normalizeMovie d) = type d
   \<and> cr_type (normalizeSeedMovie s) = type s
   \<and> cr_type (mapTmdbItem w item cat ty tm f) = ty
   \<and> (getMoviesFromTmdb w q = Inr (h1, Reply st (Listing n data))
        \<longrightarrow> list_all (\<lambda>r. cr_type r = ''movie'' \<or> cr_type r = ''series'') data)"
  by (simp add: normalizeMovie_def normalizeSeedMovie_def mapTmdbItem_def Let_def upstream_types)

theorem normalizers_copy_type_witness:
  "getMoviesFromTmdb worldUp qNone =
     Inr (\<lparr>tmdbDisabledUntil = Fin 0, tmdbFailureStreak = 0\<rparr>,
          Reply 200 (Listing 1
            [mapTmdbItem worldUp itemDune ''Trending Movies'' ''movie''
               [''movie:438631'' \<mapsto> ''https://www.youtube.com/embed/n9xhJrPXop4''] True]))
   \<and> list_all (\<lambda>r. cr_type r = ''movie'' \<or> cr_type r = ''series'')
        [mapTmdbItem worldUp itemDune ''Trending Movies'' ''movie''
           [''movie:438631'' \<mapsto> ''https://www.youtube.com/embed/n9xhJrPXop4''] True]
   \<and> cr_type (normalizeSeedMovie seedCrown) = ''series''
   \<and> cr_type (normalizeMovie docHeat) = ''movie''"
proof -
  have "list_all (\<lambda>r. cr_type r = ''movie'' \<or> cr_type r = ''series'')
        [mapTmdbItem worldUp itemDune ''Trending Movies'' ''movie''
           [''movie:438631'' \<mapsto> ''https://www.youtube.com/embed/n9xhJrPXop4''] True]"
    using normalizers_copy_type [where w = worldUp and q = qNone, THEN conjunct2, THEN conjunct2,
        THEN conjunct2, THEN mp, OF getMoviesFromTmdb_worldUp] .
  moreover have "cr_type (normalizeSeedMovie seedCrown) = ''series''"
    using normalizers_copy_type [where s = seedCrown, THEN conjunct2, THEN conjunct1]
    by (simp add: seedCrown_def)
  moreover have "cr_type (normalizeMovie docHeat) = ''movie''"
    using normalizers_copy_type [where d = docHeat, THEN conjunct1]
    by (simp add: docHeat_def seedHeat_def movie.defs movieDoc.defs)
  ultimately show ?thesis
    by (simp add: getMoviesFromTmdb_worldUp)
qed

text \<open>
  The claim as written makes the normalization function default an unrecognized type
  to \<open>movie\<close>. A seed record of type \<open>documentary\<close> keeps that type.
\<close>

theorem unknown_type_is_not_defaulted:
  "type seedOddType = ''documentary''
   \<and> cr_type (normalizeSeedMovie seedOddType) = ''documentary''
   \<and> cr_type (normalizeSeedMovie seedOddType) \<noteq> ''movie''
   \<and> cr_type (normalizeSeedMovie seedOddType) \<noteq> ''series''"
  by (simp add: normalizeSeedMovie_def seedOddType_def)

section \<open>The per-category limit of the upstream path\<close>

text \<open>
  Claim C7, as the code has it. The per-category count is a number between 6 and 40:
  \<open>clamp(n, 6, 40)\<close> for a \<open>perCategory\<close> that is a non-zero number \<open>n\<close>, and 16 when
  the parameter is absent, not a number or zero. So \<open>perCategory=3\<close> gives 6 and
  \<open>perCategory=500\<close> gives 40. In a successful upstream listing no category title has
  more records than that count.
\<close>

theorem perCategory_limit:
  "(\<exists>p. perCategory q = Fin p \<and> 6 \<le> p \<and> p \<le> 40)
   \<and> (Number_of (q_perCategory q) = Fin v \<and> v \<noteq> 0 \<longrightarrow> perCategory q = Fin (clamp v 6 40))
   \<and> (q_perCategory q = None \<or> Number_of (q_perCategory q) = NaN
        \<or> Number_of (q_perCategory q) = Fin 0 \<longrightarrow> perCategory q = Fin 16)
   \<and> (Number_of (q_perCategory q) = PosInf \<longrightarrow> perCategory q = Fin 40)
   \<and> (Number_of (q_perCategory q) = NegInf \<longrightarrow> perCategory q = Fin 6)
   \<and> (q_perCategory q = Some ''3'' \<longrightarrow> perCategory q = Fin 6)
   \<and> (q_perCategory q = Some ''500'' \<longrightarrow> perCategory q = Fin 40)
   \<and> (getMoviesFromTmdb w q = Inr (h1, Reply st (Listing n data))
        \<longrightarrow> (\<forall>t. js_le (num (int (length (filter (\<lambda>r. cr_category r = t) data))))
                       (perCategory q)))"
proof -
  have range: "\<exists>p. perCategory q = Fin p \<and> 6 \<le> p \<and> p \<le> 40"
    by (rule perCategory_range)
  have three: "q_perCategory q = Some ''3'' \<longrightarrow> perCategory q = Fin 6"
    by (simp add: perCategory_cases Number_eval clamp_def)
  have five: "q_perCategory q = Some ''500'' \<longrightarrow> perCategory q = Fin 40"
    by (simp add: perCategory_cases Number_eval clamp_def)
  have sizes: "getMoviesFromTmdb w q = Inr (h1, Reply st (Listing n data))
        \<longrightarrow> (\<forall>t. js_le (num (int (length (filter (\<lambda>r. cr_category r = t) data))))
                       (perCategory q))"
    using range upstream_category_sizes [of w q h1 st n data] by auto
  from range three five sizes show ?thesis
    by (auto simp add: perCategory_cases)
qed


theorem perCategory_limit_witness:
  "(Number_of (q_perCategory (qNone\<lparr>q_perCategory := Some ''7.5''\<rparr>)) = Fin (15 / 2)
    \<and> (15 / 2 :: rat) \<noteq> 0
    \<and> perCategory (qNone\<lparr>q_perCategory := Some ''7.5''\<rparr>) = Fin (clamp (15 / 2) 6 40)
    \<and> clamp (15 / 2) 6 40 = 15 / 2)
   \<and> (q_perCategory (qNone\<lparr>q_perCategory := Some ''3''\<rparr>) = Some ''3''
      \<and> perCategory (qNone\<lparr>q_perCategory := Some ''3''\<rparr>) = Fin 6)
   \<and> (q_perCategory (qNone\<lparr>q_perCategory := Some ''500''\<rparr>) = Some ''500''
      \<and> perCategory (qNone\<lparr>q_perCategory := Some ''500''\<rparr>) = Fin 40)
   \<and> (q_perCategory qNone = None \<and> perCategory qNone = Fin 16)
   \<and> (Number_of (q_perCategory (qNone\<lparr>q_perCategory := Some ''many''\<rparr>)) = NaN
      \<and> perCategory (qNone\<lparr>q_perCategory := Some ''many''\<rparr>) = Fin 16)
   \<and> (Number_of (q_perCategory (qNone\<lparr>q_perCategory := Some ''Infinity''\<rparr>)) = PosInf
      \<and> perCategory (qNone\<lparr>q_perCategory := Some ''Infinity''\<rparr>) = Fin 40)
   \<and> (Number_of (q_perCategory (qNone\<lparr>q_perCategory := Some ''-Infinity''\<rparr>)) = NegInf
      \<and> perCategory (qNone\<lparr>q_perCategory := Some ''-Infinity''\<rparr>) = Fin 6)
   \<and> (getMoviesFromTmdb worldUp qNone =
         Inr (\<lparr>tmdbDisabledUntil = Fin 0, tmdbFailureStreak = 0\<rparr>,
              Reply 200 (Listing 1
                [mapTmdbItem worldUp itemDune ''Trending Movies'' ''movie''
                   [''movie:438631'' \<mapsto> ''https://www.youtube.com/embed/n9xhJrPXop4''] True]))
      \<and> js_le (num (int (length (filter (\<lambda>r. cr_category r = ''Trending Movies'')
                [mapTmdbItem worldUp itemDune ''Trending Movies'' ''movie''
                   [''movie:438631'' \<mapsto> ''https://www.youtube.com/embed/n9xhJrPXop4''] True]))))
           (perCategory qNone))"
proof -
  let ?q75 = "qNone\<lparr>q_perCategory := Some ''7.5''\<rparr>"
  let ?q3 = "qNone\<lparr>q_perCategory := Some ''3''\<rparr>"
  let ?q500 = "qNone\<lparr>q_perCategory := Some ''500''\<rparr>"
  let ?qmany = "qNone\<lparr>q_perCategory := Some ''many''\<rparr>"
  let ?qinf = "qNone\<lparr>q_perCategory := Some ''Infinity''\<rparr>"
  let ?qninf = "qNone\<lparr>q_perCategory := Some ''-Infinity''\<rparr>"
  have n: "Number_of (q_perCategory ?q75) = Fin (15 / 2)"
    "Number_of (q_perCategory ?qmany) = NaN"
    "Number_of (q_perCategory ?qinf) = PosInf"
    "Number_of (q_perCategory ?qninf) = NegInf"
    by (simp_all add: Number_eval)
  have e: "clamp (15 / 2) 6 40 = 15 / 2" "(15 / 2 :: rat) \<noteq> 0"
    by (simp_all add: clamp_def)
  have f: "q_perCategory ?q3 = Some ''3''" "q_perCategory ?q500 = Some ''500''"
    "q_perCategory qNone = None"
    by (simp_all add: qNone_def)
  have a: "perCategory ?q75 = Fin (clamp (15 / 2) 6 40)"
    using perCategory_limit [where q = ?q75 and v = "15 / 2"] n(1) e(2) by blast
  have b: "perCategory ?q3 = Fin 6"
    using perCategory_limit [where q = ?q3] f(1) by blast
  have c: "perCategory ?q500 = Fin 40"
    using perCategory_limit [where q = ?q500] f(2) by blast
  have d: "perCategory qNone = Fin 16"
    using perCategory_limit [where q = qNone] f(3) by blast
  have g: "perCategory ?qmany = Fin 16"
    using perCategory_limit [where q = ?qmany] n(2) by blast
  have h: "perCategory ?qinf = Fin 40"
    using perCategory_limit [where q = ?qinf] n(3) by blast
  have i: "perCategory ?qninf = Fin 6"
    using perCategory_limit [where q = ?qninf] n(4) by blast
  have j: "\<forall>t. js_le (num (int (length (filter (\<lambda>r. cr_category r = t)
                [mapTmdbItem worldUp itemDune ''Trending Movies'' ''movie''
                   [''movie:438631'' \<mapsto> ''https://www.youtube.com/embed/n9xhJrPXop4''] True]))))
           (perCategory qNone)"
    using perCategory_limit [where q = qNone and w = worldUp] getMoviesFromTmdb_worldUp
    by blast
  from n e f a b c d g h i getMoviesFromTmdb_worldUp j [rule_format, of "''Trending Movies''"]
  show ?thesis
    by blast
qed

text \<open>
  The claim as written clamps every value that is present. \<open>perCategory=0\<close> is
  present and its clamped value would be 6; the handler takes the default 16 instead.
\<close>

theorem perCategory_zero_is_default:
  "Number_of (q_perCategory (qNone\<lparr>q_perCategory := Some ''0''\<rparr>)) = Fin 0
   \<and> clamp 0 6 40 = 6
   \<and> perCategory (qNone\<lparr>q_perCategory := Some ''0''\<rparr>) = Fin 16"
  by (simp add: perCategory_def Number_eval clamp_def js_or_def)

section \<open>The trailer endpoint\<close>

lemma firstSome_None_iff: "firstSome xs = None \<longleftrightarrow> (\<forall>x \<in> set xs. x = None)"
  by (induction xs rule: firstSome.induct) auto

lemma pickVideo_None_iff:
  "pickVideo results = None \<longleftrightarrow>
     \<not> (\<exists>v \<in> set results. video_site v = ''YouTube''
            \<and> (video_type v = ''Trailer'' \<or> video_type v = ''Teaser'' \<or> video_type v = ''Clip''))"
  by (auto simp add: pickVideo_def firstSome_None_iff find_None_iff)

lemma getTmdbTrailer_cases:
  "getTmdbTrailer w ty ident =
     (if (ty \<noteq> ''series'' \<and> ty \<noteq> ''movie'') \<or> ident = []
      then Reply 400 (Message ''Valid type and id are required.'')
      else if \<not> str_truthy (TMDB_API_KEY w)
      then Reply 503 (Message ''TMDB trailer service is unavailable.'')
      else case fetchTrailerUrl w ident ty of
             Inl e \<Rightarrow> NextError e
           | Inr u \<Rightarrow> if u = [] then Reply 404 (Message ''Trailer not available for this title.'')
                      else Reply 200 (TrailerData u))"
  by (auto simp add: getTmdbTrailer_def Let_def)

lemma fetchTrailerUrl_cases:
  "str_truthy (TMDB_API_KEY w) \<Longrightarrow>
   fetchTrailerUrl w ident ty =
     (case http w (videosPath ty ident) [] of
        None \<Rightarrow> Inl UpstreamFailure
      | Some p \<Rightarrow> (case pickVideo (payload_videos p) of
                     None \<Rightarrow> Inr []
                   | Some v \<Rightarrow> Inr (''https://www.youtube.com/embed/'' @ video_key v)))"
  by (simp add: fetchTrailerUrl_def tmdbFetch_def split: option.splits)

text \<open>
  Claim C8. The trailer endpoint answers 400 when the type is neither \<open>movie\<close> nor
  \<open>series\<close> or the id is missing; for a valid request, 503 when no API key is
  configured; with a key, 404 when the upstream answers and has no matching video
  (no YouTube trailer, teaser or clip, see \<open>pickVideo_None_iff\<close>), and 200 with the
  trailer URL when it has one. These are the only statuses the handler sends itself:
  when the upstream fetch fails the error goes to \<open>next\<close>.
\<close>

theorem trailer_endpoint_statuses:
  "((ty \<noteq> ''movie'' \<and> ty \<noteq> ''series'') \<or> ident = []
      \<longrightarrow> getTmdbTrailer w ty ident = Reply 400 (Message ''Valid type and id are required.''))
   \<and> ((ty = ''movie'' \<or> ty = ''series'') \<and> ident \<noteq> [] \<and> \<not> str_truthy (TMDB_API_KEY w)
      \<longrightarrow> getTmdbTrailer w ty ident = Reply 503 (Message ''TMDB trailer service is unavailable.''))
   \<and> ((ty = ''movie'' \<or> ty = ''series'') \<and> ident \<noteq> [] \<and> str_truthy (TMDB_API_KEY w)
        \<and> http w (videosPath ty ident) [] = Some p \<and> pickVideo (payload_videos p) = None
      \<longrightarrow> getTmdbTrailer w ty ident = Reply 404 (Message ''Trailer not available for this title.''))
   \<and> ((ty = ''movie'' \<or> ty = ''series'') \<and> ident \<noteq> [] \<and> str_truthy (TMDB_API_KEY w)
        \<and> http w (videosPath ty ident) [] = Some p \<and> pickVideo (payload_videos p) = Some v
      \<longrightarrow> getTmdbTrailer w ty ident
            = Reply 200 (TrailerData (''https://www.youtube.com/embed/'' @ video_key v)))
   \<and> ((ty = ''movie'' \<or> ty = ''series'') \<and> ident \<noteq> [] \<and> str_truthy (TMDB_API_KEY w)
        \<and> http w (videosPath ty ident) [] = None
      \<longrightarrow> getTmdbTrailer w ty ident = NextError UpstreamFailure)
   \<and> (getTmdbTrailer w ty ident = Reply st b \<longrightarrow> st = 200 \<or> st = 400 \<or> st = 503 \<or> st = 404)"
proof -
  have replies: "getTmdbTrailer w ty ident = Reply st b \<longrightarrow> st = 200 \<or> st = 400 \<or> st = 503 \<or> st = 404"
    by (auto simp add: getTmdbTrailer_cases split: sum.splits if_splits)
  show ?thesis
    using replies by (auto simp add: getTmdbTrailer_cases fetchTrailerUrl_cases)
qed

theorem trailer_endpoint_statuses_witness:
  "getTmdbTrailer worldUp ''music'' ''438631'' = Reply 400 (Message ''Valid type and id are required.'')
   \<and> getTmdbTrailer worldNoKey ''movie'' ''438631''
       = Reply 503 (Message ''TMDB trailer service is unavailable.'')
   \<and> getTmdbTrailer worldUp ''series'' ''1399''
       = Reply 404 (Message ''Trailer not available for this title.'')
   \<and> getTmdbTrailer worldUp ''movie'' ''438631''
       = Reply 200 (TrailerData ''https://www.youtube.com/embed/n9xhJrPXop4'')
   \<and> getTmdbTrailer worldSeed ''movie'' ''438631'' = NextError UpstreamFailure"
proof -
  have k: "str_truthy (TMDB_API_KEY worldUp)" "str_truthy (TMDB_API_KEY worldSeed)"
    "\<not> str_truthy (TMDB_API_KEY worldNoKey)"
    by (simp_all add: worldUp_def worldSeed_def worldNoKey_def)
  have a: "getTmdbTrailer worldUp ''music'' ''438631''
             = Reply 400 (Message ''Valid type and id are required.'')"
    using trailer_endpoint_statuses [where w = worldUp and ty = "''music''" and ident = "''438631''"]
    by simp
  have b: "getTmdbTrailer worldNoKey ''movie'' ''438631''
             = Reply 503 (Message ''TMDB trailer service is unavailable.'')"
    using trailer_endpoint_statuses [where w = worldNoKey and ty = "''movie''" and ident = "''438631''"]
      k(3) by simp
  have c0: "http worldUp (videosPath ''series'' ''1399'') [] = Some NoFields"
    "pickVideo (payload_videos NoFields) = None"
    by (simp_all add: worldUp_def worldSeed_def httpUp_def videosPath_def pickVideo_def)
  have c: "getTmdbTrailer worldUp ''series'' ''1399''
             = Reply 404 (Message ''Trailer not available for this title.'')"
    using trailer_endpoint_statuses [where w = worldUp and ty = "''series''" and ident = "''1399''"
        and p = NoFields] k(1) c0 by simp
  have d0: "http worldUp (videosPath ''movie'' ''438631'') [] = Some (VideoList [videoTeaser])"
    "pickVideo (payload_videos (VideoList [videoTeaser])) = Some videoTeaser"
    "video_key videoTeaser = ''n9xhJrPXop4''"
    by (simp_all add: worldUp_def worldSeed_def httpUp_def videosPath_def pickVideo_def
        videoTeaser_def)
  have d: "getTmdbTrailer worldUp ''movie'' ''438631''
             = Reply 200 (TrailerData ''https://www.youtube.com/embed/n9xhJrPXop4'')"
    using trailer_endpoint_statuses [where w = worldUp and ty = "''movie''" and ident = "''438631''"
        and p = "VideoList [videoTeaser]" and v = videoTeaser] k(1) d0 by simp
  have e0: "http worldSeed (videosPath ''movie'' ''438631'') [] = None"
    by (simp add: worldSeed_def httpDown_def)
  have e: "getTmdbTrailer worldSeed ''movie'' ''438631'' = NextError UpstreamFailure"
    using trailer_endpoint_statuses [where w = worldSeed and ty = "''movie''" and ident = "''438631''"]
      k(2) e0 by simp
  from a b c d e show ?thesis by blast
qed

section \<open>The year of an upstream item\<close>

lemma digits_not_space: "list_all isDigit ds \<Longrightarrow> dropWhile isWhiteSpace ds = ds"
  by (cases ds) (auto simp add: isDigit_def isWhiteSpace_def)

lemma digits_trim:
  assumes "list_all isDigit ds"
  shows "trim ds = ds"
proof -
  have "list_all isDigit (rev ds)"
    using assms by (simp add: list_all_iff)
  then have "dropWhile isWhiteSpace (rev ds) = rev ds"
    by (rule digits_not_space)
  with digits_not_space [OF assms] show ?thesis
    by (simp add: trim_def)
qed

lemma digits_takeWhile: "list_all isDigit ds \<Longrightarrow> takeWhile isDigit ds = ds \<and> dropWhile isDigit ds = []"
  by (simp add: list_all_iff)

lemma digits_parseNonDecimal:
  assumes "list_all isDigit ds"
  shows "parseNonDecimal ds = None"
proof (cases ds rule: parseNonDecimal.cases)
  case (1 z p rest)
  then have "isDigit p" using assms by simp
  then have "p \<noteq> CHR ''x''" "p \<noteq> CHR ''X''" "p \<noteq> CHR ''o''" "p \<noteq> CHR ''O''"
    "p \<noteq> CHR ''b''" "p \<noteq> CHR ''B''"
    by (auto simp add: isDigit_def)
  with 1 show ?thesis by simp
qed simp_all

lemma digits_splitSign:
  assumes "list_all isDigit ds"
  shows "splitSign ds = (False, ds)"
proof (cases ds)
  case Nil
  then show ?thesis by simp
next
  case (Cons c cs)
  then have "isDigit c" using assms by simp
  then have "c \<noteq> CHR ''+''" "c \<noteq> CHR ''-''"
    by (auto simp add: isDigit_def)
  with Cons show ?thesis by simp
qed

lemma digits_not_Infinity: "list_all isDigit ds \<Longrightarrow> ds \<noteq> ''Infinity''"
  by (auto simp add: isDigit_def)

lemma digitsVal_Nil: "digitsVal r [] = 0"
  by (simp add: digitsVal_def)

lemma StringToNumber_digits:
  assumes "list_all isDigit ds" "ds \<noteq> []"
  shows "StringToNumber ds = Fin (of_nat (digitsVal 10 ds))"
  using assms
  by (simp add: StringToNumber_def digits_trim digits_parseNonDecimal digits_splitSign
      digits_not_Infinity parseUnsignedDecimal_def digits_takeWhile pow10_def digitsVal_Nil)


lemma mapTmdbItem_year:
  "cr_year (mapTmdbItem w item cat ty tm f) =
     (if str_or (release_date item) (first_air_date item) \<noteq> []
      then StringToNumber (take 4 (str_or (release_date item) (first_air_date item)))
      else num (currentYear w))"
  by (simp add: mapTmdbItem_def Let_def)

text \<open>
  Claim C9, as the code has it. With \<open>date\<close> the release date, or the first air date
  when there is no release date: when \<open>date\<close> is not empty the year is
  \<open>Number(date.slice(0, 4))\<close>, which is the integer those characters spell when they
  are digits; when both dates are absent or empty the year is the current year.
\<close>

theorem tmdb_year_from_date:
  "(let date = str_or (release_date item) (first_air_date item);
        year' = cr_year (mapTmdbItem w item cat ty tm f)
    in (date \<noteq> [] \<longrightarrow> year' = StringToNumber (take 4 date))
       \<and> (date \<noteq> [] \<and> list_all isDigit (take 4 date)
            \<longrightarrow> year' = Fin (of_nat (digitsVal 10 (take 4 date))))
       \<and> (date = [] \<longrightarrow> year' = num (currentYear w)))"
proof -
  let ?date = "str_or (release_date item) (first_air_date item)"
  have "StringToNumber (take 4 ?date) = Fin (of_nat (digitsVal 10 (take 4 ?date)))"
    if "?date \<noteq> []" "list_all isDigit (take 4 ?date)"
    using that by (intro StringToNumber_digits) simp_all
  then show ?thesis
    unfolding Let_def mapTmdbItem_year by simp
qed

theorem tmdb_year_from_date_witness:
  "str_or (release_date itemDune) (first_air_date itemDune) = ''2021-09-15''
   \<and> list_all isDigit (take 4 ''2021-09-15'')
   \<and> cr_year (mapTmdbItem worldUp itemDune ''Trending Movies'' ''movie'' Map.empty True)
       = Fin 2021
   \<and> str_or (release_date itemNoDate) (first_air_date itemNoDate) = []
   \<and> cr_year (mapTmdbItem worldUp itemNoDate ''Trending Movies'' ''movie'' Map.empty True)
       = num 2026"
proof -
  have d1: "str_or (release_date itemDune) (first_air_date itemDune) = ''2021-09-15''"
    and d2: "str_or (release_date itemNoDate) (first_air_date itemNoDate) = []"
    by (simp_all add: itemDune_def itemNoDate_def)
  have dg: "list_all isDigit (take 4 ''2021-09-15'')"
    by (simp add: isDigit_def)
  have v: "digitsVal 10 (take 4 ''2021-09-15'') = 2021"
    by (simp add: digitsVal_def digitVal_def)
  have y: "currentYear worldUp = 2026"
    by (simp add: worldUp_def worldSeed_def)
  note dune = tmdb_year_from_date [where item = itemDune and w = worldUp
        and cat = "''Trending Movies''" and ty = "''movie''" and tm = Map.empty and f = True,
        unfolded Let_def d1]
  have a: "cr_year (mapTmdbItem worldUp itemDune ''Trending Movies'' ''movie'' Map.empty True)
             = Fin 2021"
    using dune [THEN conjunct2, THEN conjunct1] dg v by simp
  note nodate = tmdb_year_from_date [where item = itemNoDate and w = worldUp
        and cat = "''Trending Movies''" and ty = "''movie''" and tm = Map.empty and f = True,
        unfolded Let_def d2]
  have b: "cr_year (mapTmdbItem worldUp itemNoDate ''Trending Movies'' ''movie'' Map.empty True)
             = num 2026"
    using nodate [THEN conjunct2, THEN conjunct2] y by simp
  from d1 dg a d2 b show ?thesis by blast
qed

text \<open>
  The claim as written also gives the current year for a date that does not parse.
  Such a date is not empty, so the fallback is not taken: the year is \<open>NaN\<close>.
\<close>

theorem unparseable_date_gives_NaN:
  "release_date itemBadDate = ''TBA''
   \<and> StringToNumber (take 4 ''TBA'') = NaN
   \<and> cr_year (mapTmdbItem worldUp itemBadDate ''Trending Movies'' ''movie'' Map.empty True) = NaN
   \<and> cr_year (mapTmdbItem worldUp itemBadDate ''Trending Movies'' ''movie'' Map.empty True)
       \<noteq> num (currentYear worldUp)"
  by (simp add: mapTmdbItem_year itemBadDate_def itemDune_def Number_eval num_def)

section \<open>The result limit of the store and seed path\<close>

lemma cappedLimit_cases:
  "cappedLimit q =
     (case StringToNumber (default_to ''200'' (q_limit q)) of
        NaN \<Rightarrow> Fin 50
      | NegInf \<Rightarrow> Fin 1
      | PosInf \<Rightarrow> Fin 500
      | Fin v \<Rightarrow> if v = 0 then Fin 50 else Fin (clamp v 1 500))"
  unfolding cappedLimit_def by (rule js_clamp_cases) simp_all

lemma cappedLimit_range: "\<exists>p. cappedLimit q = Fin p \<and> 1 \<le> p \<and> p \<le> 500"
  using clamp_bounds [of 1 500]
  by (cases "StringToNumber (default_to ''200'' (q_limit q))") (simp_all add: cappedLimit_cases)

lemma Number_200: "StringToNumber ''200'' = Fin 200"
  by (simp add: Number_eval)

lemma filteredSeed_length: "js_le (num (int (length (filteredSeed w q)))) (cappedLimit q)"
proof -
  obtain p where p: "cappedLimit q = Fin p" "1 \<le> p"
    using cappedLimit_range [of q] by blast
  then have "0 \<le> p" by simp
  then show ?thesis
    unfolding filteredSeed_def Let_def p(1) by (rule slice0_length)
qed

text \<open>
  Claim C10. On the store and seed path the limit is a number between 1 and 500:
  \<open>clamp(n, 1, 500)\<close> with \<open>n = Number(limit)\<close> when that is a non-zero number and
  \<open>n = 50\<close> when it is zero or not a number, and 200 when the parameter is absent. So
  \<open>limit=0\<close> and \<open>limit=abc\<close> give 50, not 1. The seed path returns at most that many
  records, and the store is queried with that limit.
\<close>

theorem cappedLimit_store_seed:
  "(\<exists>p. cappedLimit q = Fin p \<and> 1 \<le> p \<and> p \<le> 500)
   \<and> (q_limit q = None \<longrightarrow> cappedLimit q = Fin 200)
   \<and> (q_limit q = Some s \<and> StringToNumber s = Fin v \<and> v \<noteq> 0
        \<longrightarrow> cappedLimit q = Fin (clamp v 1 500))
   \<and> (q_limit q = Some s \<and> (StringToNumber s = NaN \<or> StringToNumber s = Fin 0)
        \<longrightarrow> cappedLimit q = Fin (clamp 50 1 500) \<and> cappedLimit q = Fin 50)
   \<and> (q_limit q = Some s \<and> StringToNumber s = PosInf \<longrightarrow> cappedLimit q = Fin 500)
   \<and> (q_limit q = Some s \<and> StringToNumber s = NegInf \<longrightarrow> cappedLimit q = Fin 1)
   \<and> (q_limit q = Some ''0'' \<or> q_limit q = Some ''abc'' \<longrightarrow> cappedLimit q = Fin 50)
   \<and> (readyState w \<noteq> 1
        \<longrightarrow> storeOrSeed w q h
              = (h, Reply 200 (Listing (length (filteredSeed w q))
                                 (map normalizeSeedMovie (filteredSeed w q))))
            \<and> js_le (num (int (length (filteredSeed w q)))) (cappedLimit q))
   \<and> (readyState w = 1 \<and> Movie_find w (buildFilter q) (cappedLimit q) = Some docs
        \<longrightarrow> snd (storeOrSeed w q h) = Reply 200 (Listing (length docs) (map normalizeMovie docs)))"
proof -
  have zero: "q_limit q = Some ''0'' \<or> q_limit q = Some ''abc'' \<longrightarrow> cappedLimit q = Fin 50"
    by (auto simp add: cappedLimit_cases Number_eval)
  have seed: "readyState w \<noteq> 1
        \<longrightarrow> storeOrSeed w q h
              = (h, Reply 200 (Listing (length (filteredSeed w q))
                                 (map normalizeSeedMovie (filteredSeed w q))))
            \<and> js_le (num (int (length (filteredSeed w q)))) (cappedLimit q)"
    by (simp add: storeOrSeed_def Let_def filteredSeed_length)
  have store: "readyState w = 1 \<and> Movie_find w (buildFilter q) (cappedLimit q) = Some docs
        \<longrightarrow> snd (storeOrSeed w q h) = Reply 200 (Listing (length docs) (map normalizeMovie docs))"
    by (simp add: storeOrSeed_def)
  have rest: "(q_limit q = None \<longrightarrow> cappedLimit q = Fin 200)
   \<and> (q_limit q = Some s \<and> StringToNumber s = Fin v \<and> v \<noteq> 0
        \<longrightarrow> cappedLimit q = Fin (clamp v 1 500))
   \<and> (q_limit q = Some s \<and> (StringToNumber s = NaN \<or> StringToNumber s = Fin 0)
        \<longrightarrow> cappedLimit q = Fin (clamp 50 1 500) \<and> cappedLimit q = Fin 50)
   \<and> (q_limit q = Some s \<and> StringToNumber s = PosInf \<longrightarrow> cappedLimit q = Fin 500)
   \<and> (q_limit q = Some s \<and> StringToNumber s = NegInf \<longrightarrow> cappedLimit q = Fin 1)"
    by (auto simp add: cappedLimit_cases Number_200 clamp_def)
  from cappedLimit_range [of q] zero seed store rest show ?thesis
    by blast
qed


theorem cappedLimit_store_seed_witness:
  "(q_limit qNone = None \<and> cappedLimit qNone = Fin 200)
   \<and> (StringToNumber ''9999'' = Fin 9999 \<and> (9999::rat) \<noteq> 0
      \<and> cappedLimit (qNone\<lparr>q_limit := Some ''9999''\<rparr>) = Fin (clamp 9999 1 500)
      \<and> clamp 9999 1 500 = 500)
   \<and> (StringToNumber ''-5'' = Fin (- 5) \<and> (- 5 :: rat) \<noteq> 0
      \<and> cappedLimit (qNone\<lparr>q_limit := Some ''-5''\<rparr>) = Fin (clamp (- 5) 1 500)
      \<and> clamp (- 5) 1 500 = 1)
   \<and> (StringToNumber '''' = Fin 0 \<and> cappedLimit (qNone\<lparr>q_limit := Some ''''\<rparr>) = Fin 50)
   \<and> (StringToNumber ''ten'' = NaN \<and> cappedLimit (qNone\<lparr>q_limit := Some ''ten''\<rparr>) = Fin 50)
   \<and> (StringToNumber ''Infinity'' = PosInf
      \<and> cappedLimit (qNone\<lparr>q_limit := Some ''Infinity''\<rparr>) = Fin 500)
   \<and> (StringToNumber ''-Infinity'' = NegInf
      \<and> cappedLimit (qNone\<lparr>q_limit := Some ''-Infinity''\<rparr>) = Fin 1)
   \<and> cappedLimit (qNone\<lparr>q_limit := Some ''abc''\<rparr>) = Fin 50
   \<and> cappedLimit (qNone\<lparr>q_limit := Some ''0''\<rparr>) = Fin 50
   \<and> (readyState worldNoKey \<noteq> 1
      \<and> js_le (num (int (length (filteredSeed worldNoKey (qNone\<lparr>q_limit := Some ''0''\<rparr>)))))
           (Fin 50))
   \<and> (readyState worldStore = 1
      \<and> Movie_find worldStore (buildFilter qNone) (cappedLimit qNone) = Some [docHeat]
      \<and> snd (storeOrSeed worldStore qNone initialHealth)
          = Reply 200 (Listing 1 [normalizeMovie docHeat]))"
proof -
  let ?big = "qNone\<lparr>q_limit := Some ''9999''\<rparr>"
  let ?neg = "qNone\<lparr>q_limit := Some ''-5''\<rparr>"
  let ?empty = "qNone\<lparr>q_limit := Some ''''\<rparr>"
  let ?ten = "qNone\<lparr>q_limit := Some ''ten''\<rparr>"
  let ?inf = "qNone\<lparr>q_limit := Some ''Infinity''\<rparr>"
  let ?ninf = "qNone\<lparr>q_limit := Some ''-Infinity''\<rparr>"
  let ?abc = "qNone\<lparr>q_limit := Some ''abc''\<rparr>"
  let ?zero = "qNone\<lparr>q_limit := Some ''0''\<rparr>"
  have n: "StringToNumber ''9999'' = Fin 9999" "StringToNumber ''-5'' = Fin (- 5)"
    "StringToNumber '''' = Fin 0" "StringToNumber ''ten'' = NaN"
    "StringToNumber ''Infinity'' = PosInf" "StringToNumber ''-Infinity'' = NegInf"
    by (simp_all add: Number_eval)
  have c: "clamp 9999 1 500 = 500" "clamp (- 5) 1 500 = 1" "(9999::rat) \<noteq> 0"
    "(- 5 :: rat) \<noteq> 0"
    by (simp_all add: clamp_def)
  have l: "q_limit qNone = None"
    by (simp add: qNone_def)
  have r: "readyState worldNoKey \<noteq> 1" "readyState worldStore = 1"
    "Movie_find worldStore (buildFilter qNone) (cappedLimit qNone) = Some [docHeat]"
    by (simp_all add: worldNoKey_def worldStore_def worldSeed_def)
  have a: "cappedLimit qNone = Fin 200"
    using cappedLimit_store_seed [where q = qNone] l by blast
  have b: "cappedLimit ?big = Fin (clamp 9999 1 500)"
    using cappedLimit_store_seed [where q = ?big and s = "''9999''" and v = 9999] n(1) by simp
  have d: "cappedLimit ?neg = Fin (clamp (- 5) 1 500)"
    using cappedLimit_store_seed [where q = ?neg and s = "''-5''" and v = "- 5"] n(2) by simp
  have e: "cappedLimit ?empty = Fin 50"
    using cappedLimit_store_seed [where q = ?empty and s = "''''"] n(3) by (simp add: clamp_def)
  have f: "cappedLimit ?ten = Fin 50"
    using cappedLimit_store_seed [where q = ?ten and s = "''ten''"] n(4) by (simp add: clamp_def)
  have g: "cappedLimit ?inf = Fin 500"
    using cappedLimit_store_seed [where q = ?inf and s = "''Infinity''"] n(5) by simp
  have h: "cappedLimit ?ninf = Fin 1"
    using cappedLimit_store_seed [where q = ?ninf and s = "''-Infinity''"] n(6) by simp
  have i: "cappedLimit ?abc = Fin 50"
    using cappedLimit_store_seed [where q = ?abc] by simp
  have j: "cappedLimit ?zero = Fin 50"
    using cappedLimit_store_seed [where q = ?zero] by simp
  have k: "js_le (num (int (length (filteredSeed worldNoKey ?zero)))) (Fin 50)"
    using cappedLimit_store_seed [where q = ?zero and w = worldNoKey] r(1)
    unfolding j by blast
  have m: "snd (storeOrSeed worldStore qNone initialHealth)
             = Reply 200 (Listing (length [docHeat]) (map normalizeMovie [docHeat]))"
    using cappedLimit_store_seed [where q = qNone and w = worldStore and docs = "[docHeat]"
        and h = initialHealth] r(2,3) by blast
  have m': "snd (storeOrSeed worldStore qNone initialHealth)
             = Reply 200 (Listing 1 [normalizeMovie docHeat])"
    using m by simp
  from l a n c b d e f g h i j r k m' show ?thesis
    by blast
qed

section \<open>The filters of the seed path\<close>

lemma slice0_subset: "set (slice0 n xs) \<subseteq> set xs"
  by (cases n) (auto simp add: Let_def dest: in_set_takeD)

lemma String_includes_sublist: "String_includes hay needle \<longleftrightarrow> sublist needle hay"
  by (induction hay) (auto simp add: sublist_Cons_right)

text \<open>
  What the seed filter does guarantee: every returned record has the requested type and
  category (compared as they are, without trimming), contains the search text in its
  title when both are lower-cased, and is featured when \<open>featured=true\<close> was asked.
\<close>

lemma seed_filter_sound:
  assumes "m \<in> set (filteredSeed w q)"
  shows "m \<in> set (seedMovies w)
    \<and> (default_to [] (q_type q) \<noteq> [] \<longrightarrow> type m = default_to [] (q_type q))
    \<and> (default_to [] (q_category q) \<noteq> [] \<longrightarrow> category m = default_to [] (q_category q))
    \<and> (default_to [] (q_search q) \<noteq> []
         \<longrightarrow> sublist (toLowerCase (default_to [] (q_search q))) (toLowerCase (title m)))
    \<and> (q_featured q = Some ''true'' \<longrightarrow> featured m)"
proof -
  let ?search = "default_to [] (q_search q)" and ?cat = "default_to [] (q_category q)"
  let ?ty = "default_to [] (q_type q)" and ?feat = "default_to [] (q_featured q)"
  let ?kept = "filter (\<lambda>movie. if ?feat = ''true'' then featured movie else True)
           (filter (\<lambda>movie. ?search = [] \<or>
                       String_includes (toLowerCase (title movie)) (toLowerCase ?search))
           (filter (\<lambda>movie. ?cat = [] \<or> category movie = ?cat)
           (filter (\<lambda>movie. ?ty = [] \<or> type movie = ?ty) (seedMovies w))))"
  have "m \<in> set (slice0 (cappedLimit q) ?kept)"
    using assms by (simp add: filteredSeed_def Let_def)
  then have "m \<in> set ?kept"
    using slice0_subset [of "cappedLimit q" ?kept] by blast
  then show ?thesis
    by (auto simp add: String_includes_sublist split: if_splits)
qed

text \<open>
  Claim C5 says that the seed path applies the \<open>featured\<close> filter for
  \<open>featured=false\<close> as well. It does not: with the store not connected and two seed
  records, one of them featured, a request with \<open>featured=false\<close> gets both, the
  featured one included, while the filter built for the store from the same request
  asks for \<open>featured = false\<close>.
\<close>

theorem seed_ignores_featured_false:
  "out_reply (getMovies worldNoKey (qNone\<lparr>q_featured := Some ''false''\<rparr>) initialHealth)
     = Reply 200 (Listing 2 [normalizeSeedMovie seedCrown, normalizeSeedMovie seedHeat])
   \<and> cr_featured (normalizeSeedMovie seedCrown) = True
   \<and> f_featured (buildFilter (qNone\<lparr>q_featured := Some ''false''\<rparr>)) = Some False"
proof -
  let ?q = "qNone\<lparr>q_featured := Some ''false''\<rparr>"
  have t: "tryUpstream worldNoKey ?q initialHealth = (initialHealth, None, False)"
    by (simp add: tryUpstream_def upstreamEligible_def worldNoKey_def)
  have c: "cappedLimit ?q = Fin 200"
    by (simp add: cappedLimit_cases qNone_def Number_200 clamp_def)
  have f: "filteredSeed worldNoKey ?q = [seedCrown, seedHeat]"
    by (simp add: filteredSeed_def c trunc_def) (simp add: qNone_def worldNoKey_def worldSeed_def)
  have r: "readyState worldNoKey = 0"
    by (simp add: worldNoKey_def worldSeed_def)
  show ?thesis
    by (simp add: getMovies_def t storeOrSeed_def r f)
      (simp add: normalizeSeedMovie_def seedCrown_def buildFilter_def qNone_def)
qed

end
